theory Spec2Isabelle
  imports Main
begin

section \<open>Go values used by the operator\<close>

text \<open>
  A Go \<^verbatim>\<open>map[string]string\<close> is a finite map; the nil map is \<open>None\<close>.  Reading a
  nil map, or a key that is not there, gives the zero value (the empty string).
\<close>

type_synonym strmap = "string \<rightharpoonup> string"

definition index :: "strmap option \<Rightarrow> string \<Rightarrow> string" where
  "index m k = (case m of None \<Rightarrow> [] | Some f \<Rightarrow> (case f k of None \<Rightarrow> [] | Some v \<Rightarrow> v))"

text \<open>\<^verbatim>\<open>maps.Copy(dst, src)\<close>: every pair of \<open>src\<close> is written into \<open>dst\<close>.\<close>

definition maps_Copy :: "strmap \<Rightarrow> strmap option \<Rightarrow> strmap" where
  "maps_Copy dst src = (case src of None \<Rightarrow> dst | Some s \<Rightarrow> dst ++ s)"

definition slices_Contains :: "string list \<Rightarrow> string \<Rightarrow> bool" where
  "slices_Contains xs x = (x \<in> set xs)"

definition HasSuffix :: "string \<Rightarrow> string \<Rightarrow> bool" where
  "HasSuffix s suf = (length suf \<le> length s \<and> drop (length s - length suf) s = suf)"

definition HasPrefix :: "string \<Rightarrow> string \<Rightarrow> bool" where
  "HasPrefix s pre = (take (length pre) s = pre)"

text \<open>
  \<^verbatim>\<open>path.Base\<close>: the empty path gives \<^verbatim>\<open>.\<close>; trailing slashes are removed; what
  follows the last slash is returned, or \<^verbatim>\<open>/\<close> when nothing is left.
\<close>

definition path_Base :: "string \<Rightarrow> string" where
  "path_Base p =
     (if p = [] then ''.''
      else let p1 = rev (dropWhile (\<lambda>c. c = CHR ''/'') (rev p));
               p2 = rev (takeWhile (\<lambda>c. c \<noteq> CHR ''/'') (rev p1))
           in if p2 = [] then ''/'' else p2)"

text \<open>
  Errors are values.  \<open>Errorf\<close> is an error made by \<^verbatim>\<open>fmt.Errorf\<close> with its formatted
  message; \<open>StatusError\<close> is an API status error of the object store with its
  reason, its HTTP code and its message; \<open>LibError\<close> is any other error of a library
  (git, yaml, I/O).
\<close>

datatype error = Errorf string | StatusError string nat string | LibError string

fun Error :: "error \<Rightarrow> string" where
  "Error (Errorf m) = m"
| "Error (StatusError r c m) = m"
| "Error (LibError m) = m"

text \<open>
  \<^verbatim>\<open>errors.IsNotFound\<close> belongs to the API machinery library; the reconciler takes it
  from its collaborators (field \<open>IsNotFound\<close> below), so what is proved of \<^verbatim>\<open>applyFile\<close>
  holds for whatever errors the library counts as not-found.  The library's rule, used
  in the examples: the reason and code of a status error are read (any other error has
  the unknown reason, which is empty, and code 0); the error is not-found when the
  reason is NotFound, or when the code is 404 and the reason is none the library knows.
\<close>

fun reasonAndCodeForError :: "error \<Rightarrow> string \<times> nat" where
  "reasonAndCodeForError (StatusError r c m) = (r, c)"
| "reasonAndCodeForError (Errorf m) = ([], 0)"
| "reasonAndCodeForError (LibError m) = ([], 0)"

definition knownReasons :: "string list" where
  "knownReasons =
     [''Unauthorized'', ''Forbidden'', ''NotFound'', ''AlreadyExists'', ''Conflict'', ''Gone'',
      ''Invalid'', ''ServerTimeout'', ''Timeout'', ''TooManyRequests'', ''BadRequest'',
      ''MethodNotAllowed'', ''NotAcceptable'', ''RequestEntityTooLarge'',
      ''UnsupportedMediaType'', ''InternalError'', ''Expired'', ''ServiceUnavailable'']"

definition errors_IsNotFound :: "error \<Rightarrow> bool" where
  "errors_IsNotFound err =
     (case reasonAndCodeForError err of
        (reason, code) \<Rightarrow>
          if reason = ''NotFound'' then True
          else if reason \<notin> set knownReasons \<and> code = 404 then True
          else False)"

text \<open>
  \<^verbatim>\<open>context.Context\<close>: the background context, the context of an HTTP request
  (numbered), and a context derived from a parent with a deadline.
\<close>

datatype Context = Background | Request nat | WithDeadline Context nat

section \<open>Documents, files, commits\<close>

record GroupVersionKind =
  Group :: string
  Version :: string
  Kind :: string

text \<open>
  \<^verbatim>\<open>unstructured.Unstructured\<close>, by the accessors the operator uses; \<open>Object\<close> is the
  rest of the document.  Labels and annotations are string maps (nil when the field is
  absent); an absent resource version reads as the empty string.
\<close>

record Unstructured =
  GetGroupVersionKind :: GroupVersionKind
  GetNamespace :: string
  GetName :: string
  GetLabels :: "strmap option"
  GetAnnotations :: "strmap option"
  GetResourceVersion :: string
  Object :: string

definition SetLabels :: "strmap \<Rightarrow> Unstructured \<Rightarrow> Unstructured" where
  "SetLabels labels u = u\<lparr>GetLabels := Some labels\<rparr>"

definition SetAnnotations :: "strmap \<Rightarrow> Unstructured \<Rightarrow> Unstructured" where
  "SetAnnotations annotations u = u\<lparr>GetAnnotations := Some annotations\<rparr>"

definition SetResourceVersion :: "string \<Rightarrow> Unstructured \<Rightarrow> Unstructured" where
  "SetResourceVersion v u = u\<lparr>GetResourceVersion := v\<rparr>"

record DotNops =
  Namespace :: string
  Labels :: "strmap option"

text \<open>
  \<^verbatim>\<open>object.File\<close>: its path, the string of its blob hash, and what reading it gives
  (\<^verbatim>\<open>Reader\<close> followed by \<^verbatim>\<open>io.ReadAll\<close>: the bytes, or the error of either).
\<close>

record File =
  Name :: string
  ID :: string
  Reader :: "error + string"

text \<open>
  \<^verbatim>\<open>object.Tree\<close>: \<open>TreeFile\<close> is \<^verbatim>\<open>tree.File(path)\<close>; \<open>Files\<close> are the files
  the iterator of \<^verbatim>\<open>tree.Files()\<close> yields, in its order, and \<open>FilesErr\<close> the error it
  ends with when reading the tree fails after them (\<open>None\<close>: it ends with EOF).
\<close>

record Tree =
  TreeFile :: "string \<Rightarrow> error + File"
  Files :: "File list"
  FilesErr :: "error option"

record Commit =
  CommitID :: string
  Message :: string
  CommitTree :: "error + Tree"

record Repository =
  Head :: "error + string"
  CommitObject :: "string \<Rightarrow> error + Commit"

section \<open>The operator, its collaborators and the observable world\<close>

definition operatorName :: string where
  "operatorName = ''knops''"

definition managedByLabel :: string where
  "managedByLabel = ''app.kubernetes.io/managed-by''"

definition commitIdAnnotation :: string where
  "commitIdAnnotation = ''meta.knops/commit-id''"

definition fileIdAnnotation :: string where
  "fileIdAnnotation = ''meta.knops/file-id''"

record GitClient =
  url :: string
  branch :: string
  dir :: string
  progress :: bool

record KubeClient =
  name :: string

record Operator =
  git :: GitClient
  kc :: KubeClient
  cacheIds :: "strmap option"
  kinds :: "string list"
  namespaces :: "string list"
  allowCreate :: bool
  onlyManaged :: bool

text \<open>What the REST mapper answers for a kind: the resource and the name of its scope.\<close>

record RESTMapping =
  Resource :: string
  ScopeName :: string

definition RESTScopeNameNamespace :: string where
  "RESTScopeNameNamespace = ''namespace''"

text \<open>A \<^verbatim>\<open>dynamic.ResourceInterface\<close>: a resource, within a namespace or cluster-wide.\<close>

datatype ResourceInterface = RI string "string option"

text \<open>
  The libraries the operator calls are parameters of the model.  \<open>'s\<close> is the state of
  everything outside the process (cluster, remote repository, file system, clock,
  requests); each call may read and change it, and may answer with any pair of a
  result and an error, as a Go function can.
\<close>

record 's api =
  Decode :: "string \<Rightarrow> error + (Unstructured \<times> GroupVersionKind)"
  Unmarshal :: "string \<Rightarrow> error + DotNops"
  IsNotFound :: "error \<Rightarrow> bool"
  restMapping :: "GroupVersionKind \<Rightarrow> 's \<Rightarrow> (error + RESTMapping) \<times> 's"
  riGet :: "Context \<Rightarrow> ResourceInterface \<Rightarrow> string \<Rightarrow> 's \<Rightarrow>
              (Unstructured option \<times> error option) \<times> 's"
  riCreate :: "Context \<Rightarrow> ResourceInterface \<Rightarrow> Unstructured \<Rightarrow> string \<Rightarrow> 's \<Rightarrow>
              (Unstructured option \<times> error option) \<times> 's"
  riUpdate :: "Context \<Rightarrow> ResourceInterface \<Rightarrow> Unstructured \<Rightarrow> string \<Rightarrow> 's \<Rightarrow>
              (Unstructured option \<times> error option) \<times> 's"
  RemoveAll :: "string \<Rightarrow> 's \<Rightarrow> error option \<times> 's"
  CloneContext :: "Context \<Rightarrow> GitClient \<Rightarrow> 's \<Rightarrow> (error + Repository) \<times> 's"
  requestDone :: "nat \<Rightarrow> 's \<Rightarrow> bool"
  clock :: "'s \<Rightarrow> nat"

text \<open>
  What an observer sees of a run: the calls made to the \<^verbatim>\<open>KubeClient\<close>, in order, the
  records written with \<^verbatim>\<open>slog\<close>, and the values sent on result channels.
\<close>

datatype call =
  GetCall GroupVersionKind string string
| CreateCall Unstructured
| UpdateCall Unstructured

datatype level = LevelDebug | LevelInfo | LevelWarn | LevelError

datatype attr = S string | E error

type_synonym logrec = "level \<times> string \<times> (string \<times> attr) list"

record 's world =
  ext :: 's
  calls :: "call list"
  logs :: "logrec list"
  sent :: "(nat \<times> error option) list"

definition slog :: "level \<Rightarrow> string \<Rightarrow> (string \<times> attr) list \<Rightarrow> 's world \<Rightarrow> 's world" where
  "slog l msg attrs w = w\<lparr>logs := logs w @ [(l, msg, attrs)]\<rparr>"

fun isMutation :: "call \<Rightarrow> bool" where
  "isMutation (GetCall g n m) = False"
| "isMutation (CreateCall d) = True"
| "isMutation (UpdateCall d) = True"

definition mutations :: "'s world \<Rightarrow> call list" where
  "mutations w = filter isMutation (calls w)"

section \<open>kube.go\<close>

text \<open>
  The three methods of \<^verbatim>\<open>KubeClient\<close>.  Each first notes itself in \<open>calls\<close> (the
  record an observer keeps; the source has no such list), then resolves the resource
  interface, whose error it returns with a nil object, and then asks the store.
\<close>

definition resourceInterface ::
  "'s api \<Rightarrow> GroupVersionKind \<Rightarrow> string \<Rightarrow> 's \<Rightarrow> (error + ResourceInterface) \<times> 's" where
  "resourceInterface api gvk ns s =
     (case restMapping api gvk s of
        (Inl err, s') \<Rightarrow> (Inl err, s')
      | (Inr gvr, s') \<Rightarrow>
          (Inr (if ScopeName gvr = RESTScopeNameNamespace
                then RI (Resource gvr) (Some ns) else RI (Resource gvr) None), s'))"

definition get ::
  "'s api \<Rightarrow> KubeClient \<Rightarrow> Context \<Rightarrow> GroupVersionKind \<Rightarrow> string \<Rightarrow> string \<Rightarrow> 's world \<Rightarrow>
     (Unstructured option \<times> error option) \<times> 's world" where
  "get api c ctx gvk ns nm w =
     (let w0 = w\<lparr>calls := calls w @ [GetCall gvk ns nm]\<rparr> in
      case resourceInterface api gvk ns (ext w0) of
        (Inl err, s') \<Rightarrow> ((None, Some err), w0\<lparr>ext := s'\<rparr>)
      | (Inr ri, s') \<Rightarrow>
          (case riGet api ctx ri nm s' of (r, s'') \<Rightarrow> (r, w0\<lparr>ext := s''\<rparr>)))"

definition create ::
  "'s api \<Rightarrow> KubeClient \<Rightarrow> Context \<Rightarrow> Unstructured \<Rightarrow> 's world \<Rightarrow>
     (Unstructured option \<times> error option) \<times> 's world" where
  "create api c ctx obj w =
     (let w0 = w\<lparr>calls := calls w @ [CreateCall obj]\<rparr> in
      case resourceInterface api (GetGroupVersionKind obj) (GetNamespace obj) (ext w0) of
        (Inl err, s') \<Rightarrow> ((None, Some err), w0\<lparr>ext := s'\<rparr>)
      | (Inr ri, s') \<Rightarrow>
          (case riCreate api ctx ri obj (name c) s' of (r, s'') \<Rightarrow> (r, w0\<lparr>ext := s''\<rparr>)))"

definition update ::
  "'s api \<Rightarrow> KubeClient \<Rightarrow> Context \<Rightarrow> Unstructured \<Rightarrow> 's world \<Rightarrow>
     (Unstructured option \<times> error option) \<times> 's world" where
  "update api c ctx obj w =
     (let w0 = w\<lparr>calls := calls w @ [UpdateCall obj]\<rparr> in
      case resourceInterface api (GetGroupVersionKind obj) (GetNamespace obj) (ext w0) of
        (Inl err, s') \<Rightarrow> ((None, Some err), w0\<lparr>ext := s'\<rparr>)
      | (Inr ri, s') \<Rightarrow>
          (case riUpdate api ctx ri obj (name c) s' of (r, s'') \<Rightarrow> (r, w0\<lparr>ext := s''\<rparr>)))"

section \<open>The reconciler\<close>

definition loadUnstructuredFromFile ::
  "'s api \<Rightarrow> File \<Rightarrow> error + (Unstructured \<times> GroupVersionKind)" where
  "loadUnstructuredFromFile api file =
     (case Reader file of
        Inl err \<Rightarrow> Inl err
      | Inr data \<Rightarrow> (case Decode api data of Inl err \<Rightarrow> Inl err | Inr r \<Rightarrow> Inr r))"

definition loadDotNopsFromTree :: "'s api \<Rightarrow> Tree \<Rightarrow> error + DotNops" where
  "loadDotNopsFromTree api tree =
     (case TreeFile tree ''.nops.yaml'' of
        Inl err \<Rightarrow> Inl err
      | Inr dotNopsYaml \<Rightarrow>
          (case Reader dotNopsYaml of
             Inl err \<Rightarrow> Inl err
           | Inr dotNopsData \<Rightarrow>
               (case Unmarshal api dotNopsData of Inl err \<Rightarrow> Inl err | Inr dotNops \<Rightarrow> Inr dotNops)))"

text \<open>
  Lines 62 to 74 of \<^verbatim>\<open>applyFile\<close>: the two silent skips on a live object.  \<open>Some\<close> is
  the early \<^verbatim>\<open>return nil\<close> (with the world after its debug record), \<open>None\<close> is falling
  through.
\<close>

definition ignoreActual ::
  "Operator \<Rightarrow> File \<Rightarrow> Unstructured option \<Rightarrow> 's world \<Rightarrow> 's world option" where
  "ignoreActual o' file actual w =
     (case actual of
        None \<Rightarrow> None
      | Some a \<Rightarrow>
          if onlyManaged o' \<and> index (GetLabels a) managedByLabel \<noteq> operatorName
          then Some (slog LevelDebug ''ignore unmanaged object'' [(''name'', S (GetName a))] w)
          else if index (GetAnnotations a) fileIdAnnotation = ID file
          then Some (slog LevelDebug ''ignore same object'' [(''name'', S (GetName a))] w)
          else None)"

text \<open>Lines 76 to 90: the labels and annotations written into the desired document.\<close>

definition stampLabels :: "DotNops \<Rightarrow> Unstructured \<Rightarrow> Unstructured" where
  "stampLabels dotNops desired =
     (let labels = (case GetLabels desired of None \<Rightarrow> Map.empty | Some l \<Rightarrow> l);
          labels = maps_Copy labels (Labels dotNops);
          labels = labels(managedByLabel \<mapsto> operatorName)
      in SetLabels labels desired)"

definition stampAnnotations :: "string \<Rightarrow> File \<Rightarrow> Unstructured \<Rightarrow> Unstructured" where
  "stampAnnotations commitId file desired =
     (let annotations = (case GetAnnotations desired of None \<Rightarrow> Map.empty | Some a \<Rightarrow> a);
          annotations = annotations(commitIdAnnotation \<mapsto> commitId);
          annotations = annotations(fileIdAnnotation \<mapsto> ID file)
      in SetAnnotations annotations desired)"

definition applyFile ::
  "'s api \<Rightarrow> Operator \<Rightarrow> Context \<Rightarrow> DotNops \<Rightarrow> string \<Rightarrow> File \<Rightarrow> 's world \<Rightarrow>
     error option \<times> 's world" where
  "applyFile api o' ctx dotNops commitId file w =
     (case loadUnstructuredFromFile api file of
        Inl err \<Rightarrow> (Some err, w)
      | Inr (desired, gvk) \<Rightarrow>
          if \<not> slices_Contains (kinds o') (Kind gvk)
          then (Some (Errorf (''Unsupported kind: '' @ Kind gvk)), w)
          else if GetNamespace desired \<noteq> Namespace dotNops
          then (Some (Errorf (''Namespace mismatched: '' @ GetNamespace desired)), w)
          else
            (case get api (kc o') ctx gvk (Namespace dotNops) (GetName desired) w of
               ((actual, err), w1) \<Rightarrow>
                 if err \<noteq> None \<and> (\<not> IsNotFound api (the err) \<or> \<not> allowCreate o')
                 then (err, w1)
                 else
                   (case ignoreActual o' file actual w1 of
                      Some w2 \<Rightarrow> (None, w2)
                    | None \<Rightarrow>
                        (let desired = stampLabels dotNops desired;
                             desired = stampAnnotations commitId file desired
                         in case actual of
                              Some a \<Rightarrow>
                                (case update api (kc o') ctx
                                        (SetResourceVersion (GetResourceVersion a) desired) w1 of
                                   ((r, err), w3) \<Rightarrow> (err, w3))
                            | None \<Rightarrow>
                                (case create api (kc o') ctx desired w1 of
                                   ((r, err), w3) \<Rightarrow> (err, w3))))))"

text \<open>
  \<^verbatim>\<open>FileIter.ForEach\<close>: the callback runs on each file the iterator yields, in order;
  the first error of the callback ends the walk and is returned; when the files are
  exhausted the iterator's own error, if any, is returned.  (The library's stop
  sentinel is left out: the callback of \<^verbatim>\<open>deployCommit\<close> returns nil on every path.)
\<close>

fun ForEach ::
  "File list \<Rightarrow> error option \<Rightarrow> (File \<Rightarrow> 'st \<Rightarrow> error option \<times> 'st) \<Rightarrow> 'st \<Rightarrow> error option \<times> 'st" where
  "ForEach [] iterErr cb st = (iterErr, st)"
| "ForEach (f # fs) iterErr cb st =
     (case cb f st of
        (Some err, st') \<Rightarrow> (Some err, st')
      | (None, st') \<Rightarrow> ForEach fs iterErr cb st')"

text \<open>
  The callback \<^verbatim>\<open>deployCommit\<close> passes to \<^verbatim>\<open>ForEach\<close> (lines 125 to 151).  It reads and
  writes the operator's \<^verbatim>\<open>cacheIds\<close>, so the operator is part of its state.
\<close>

definition deployFile ::
  "'s api \<Rightarrow> Context \<Rightarrow> DotNops \<Rightarrow> string \<Rightarrow> File \<Rightarrow> Operator \<times> 's world \<Rightarrow>
     error option \<times> (Operator \<times> 's world)" where
  "deployFile api ctx dotNops commitId f st =
     (case st of (o', w) \<Rightarrow>
        if \<not> HasSuffix (Name f) ''.yaml'' \<or> HasPrefix (path_Base (Name f)) ''.''
        then (None, (o', w))
        else
          (let fileId = ID f;
               w0 = slog LevelDebug ''apply file'' [(''file'', S (Name f)), (''id'', S fileId)] w
           in if cacheIds o' \<noteq> None \<and> index (cacheIds o') (Name f) = fileId
              then (None, (o', slog LevelDebug ''ignore object by same cache id''
                                  [(''name'', S (Name f))] w0))
              else
                (case applyFile api o' ctx dotNops commitId f w0 of
                   (Some err, w1) \<Rightarrow>
                     (None, (o', slog LevelWarn ''apply file''
                                    [(''file'', S (Name f)), (''err'', E err)] w1))
                 | (None, w1) \<Rightarrow>
                     (case cacheIds o' of
                        Some m \<Rightarrow> (None, (o'\<lparr>cacheIds := Some (m(Name f \<mapsto> fileId))\<rparr>, w1))
                      | None \<Rightarrow> (None, (o', w1))))))"

definition deployCommit ::
  "'s api \<Rightarrow> Operator \<Rightarrow> Context \<Rightarrow> Commit \<Rightarrow> 's world \<Rightarrow> error option \<times> Operator \<times> 's world" where
  "deployCommit api o' ctx commit w =
     (case CommitTree commit of
        Inl err \<Rightarrow> (Some err, o', w)
      | Inr tree \<Rightarrow>
          (case loadDotNopsFromTree api tree of
             Inl err \<Rightarrow> (Some (Errorf (''Load .nops.yaml: '' @ Error err)), o', w)
           | Inr dotNops \<Rightarrow>
               if length (namespaces o') > 0 \<and> \<not> slices_Contains (namespaces o') (Namespace dotNops)
               then (Some (Errorf (''Restricted namespace: '' @ Namespace dotNops)), o', w)
               else
                 (let commitId = CommitID commit in
                  case ForEach (Files tree) (FilesErr tree)
                         (deployFile api ctx dotNops commitId) (o', w) of
                    (Some err, (o1, w1)) \<Rightarrow> (Some err, o1, w1)
                  | (None, (o1, w1)) \<Rightarrow> (None, o1, w1))))"

section \<open>git.go and the pass\<close>

definition clone :: "'s api \<Rightarrow> GitClient \<Rightarrow> Context \<Rightarrow> 's world \<Rightarrow> (error + Repository) \<times> 's world" where
  "clone api c ctx w =
     (let w0 = slog LevelDebug ''clone repo''
                 [(''url'', S (url c)), (''branch'', S (branch c)), (''to'', S (dir c))] w
      in case RemoveAll api (dir c) (ext w0) of
           (Some err, s1) \<Rightarrow> (Inl err, w0\<lparr>ext := s1\<rparr>)
         | (None, s1) \<Rightarrow>
             (case CloneContext api ctx c s1 of (r, s2) \<Rightarrow> (r, w0\<lparr>ext := s2\<rparr>)))"

definition cloneRepoAndDeploy ::
  "'s api \<Rightarrow> Operator \<Rightarrow> Context \<Rightarrow> 's world \<Rightarrow> error option \<times> Operator \<times> 's world" where
  "cloneRepoAndDeploy api o' ctx w =
     (case clone api (git o') ctx w of
        (Inl err, w1) \<Rightarrow> (Some err, o', w1)
      | (Inr repo, w1) \<Rightarrow>
          (case Head repo of
             Inl err \<Rightarrow> (Some err, o', w1)
           | Inr headRef \<Rightarrow>
               (case CommitObject repo headRef of
                  Inl err \<Rightarrow> (Some err, o', w1)
                | Inr head \<Rightarrow>
                    (let w2 = slog LevelInfo ''deploy HEAD commit''
                                [(''id'', S (CommitID head)),
                                 (''message'', S (takeWhile (\<lambda>c. c \<noteq> CHR 0x0A) (Message head)))] w1
                     in case deployCommit api o' ctx head w2 of
                          (Some err, o1, w3) \<Rightarrow> (Some err, o1, w3)
                        | (None, o1, w3) \<Rightarrow>
                            (None, o1, slog LevelInfo ''deploy commit done''
                                         [(''id'', S (CommitID head))] w3)))))"

section \<open>main: the operator, the worker and the trigger\<close>

record OperatorConfig =
  OnlyManaged :: bool
  AllowCreate :: bool
  CacheFileId :: bool
  Kinds :: "string list"
  Namespaces :: "string list"

text \<open>Lines 91 to 102 of \<^verbatim>\<open>main\<close>: the operator built from the configuration.\<close>

definition mainOperator :: "GitClient \<Rightarrow> KubeClient \<Rightarrow> OperatorConfig \<Rightarrow> Operator" where
  "mainOperator gitClient kubeClient conf =
     (let operator = \<lparr>git = gitClient, kc = kubeClient, cacheIds = None,
                       kinds = Kinds conf, namespaces = Namespaces conf,
                       allowCreate = AllowCreate conf, onlyManaged = OnlyManaged conf\<rparr>
      in if CacheFileId conf then operator\<lparr>cacheIds := Some Map.empty\<rparr> else operator)"

text \<open>
  A context is done when it was cancelled or its deadline has passed: the background
  context never, a request's context when the request is, a derived context when its
  parent is or when the clock has reached its deadline.
\<close>

fun Done :: "'s api \<Rightarrow> Context \<Rightarrow> 's \<Rightarrow> bool" where
  "Done api Background s = False"
| "Done api (Request r) s = requestDone api r s"
| "Done api (WithDeadline parent d) s = (Done api parent s \<or> d \<le> clock api s)"

definition WithTimeout :: "'s api \<Rightarrow> Context \<Rightarrow> nat \<Rightarrow> 's \<Rightarrow> Context" where
  "WithTimeout api parent timeout s = WithDeadline parent (clock api s + timeout)"

text \<open>Three minutes, in nanoseconds.\<close>

definition deployTimeout :: nat where
  "deployTimeout = 3 * (60 * 1000000000)"

text \<open>A job: its context and its result channel (numbered; \<open>None\<close> is the nil channel).\<close>

record DeployJob =
  job_ctx :: Context
  job_res :: "nat option"

text \<open>
  The body of the worker's loop (lines 109 to 126) on the job it has received.  The
  first branch is the \<^verbatim>\<open>continue\<close>.
\<close>

definition workerJob :: "'s api \<Rightarrow> DeployJob \<Rightarrow> Operator \<times> 's world \<Rightarrow> Operator \<times> 's world" where
  "workerJob api job st =
     (case st of (operator, w) \<Rightarrow>
        if Done api (job_ctx job) (ext w) then (operator, w)
        else
          (let c = WithTimeout api (job_ctx job) deployTimeout (ext w) in
           case cloneRepoAndDeploy api operator c w of
             (err, operator1, w1) \<Rightarrow>
               (let w2 = (if err \<noteq> None then slog LevelError ''deploy'' [(''err'', E (the err))] w1
                          else w1);
                    w3 = (case job_res job of
                            Some ch \<Rightarrow> w2\<lparr>sent := sent w2 @ [(ch, err)]\<rparr>
                          | None \<Rightarrow> w2)
                in (operator1, w3))))"

text \<open>The worker on the jobs it receives from the channel, in the order it receives them.\<close>

fun worker :: "'s api \<Rightarrow> DeployJob list \<Rightarrow> Operator \<times> 's world \<Rightarrow> Operator \<times> 's world" where
  "worker api [] st = st"
| "worker api (job # jobs) st = worker api jobs (workerJob api job st)"

text \<open>
  The trigger handler up to its \<^verbatim>\<open>select\<close> (lines 131 to 153).  Which case of the
  \<^verbatim>\<open>select\<close> runs is the scheduler's choice and an input here; \<open>r\<close> numbers the request
  and \<open>ch\<close> the result channel the synchronous branch makes.  The result is the job
  sent on \<^verbatim>\<open>deployJobs\<close>, if any.
\<close>

datatype selected = SendJob | RequestDone

definition handler ::
  "string \<Rightarrow> string \<Rightarrow> string \<Rightarrow> nat \<Rightarrow> nat \<Rightarrow> selected \<Rightarrow> 's world \<Rightarrow> DeployJob option \<times> 's world" where
  "handler confKey key sync r ch sel w =
     (if key \<noteq> confKey then (None, w)
      else if sync \<noteq> ''1'' then
        (case sel of
           SendJob \<Rightarrow> (Some \<lparr>job_ctx = Background, job_res = None\<rparr>, w)
         | RequestDone \<Rightarrow> (None, slog LevelInfo ''deploy cancelled'' [] w))
      else
        (case sel of
           SendJob \<Rightarrow> (Some \<lparr>job_ctx = Request r, job_res = Some ch\<rparr>, w)
         | RequestDone \<Rightarrow> (None, slog LevelInfo ''deploy cancelled'' [] w)))"

section \<open>A small cluster and repository, for examples\<close>

text \<open>
  An instance of the collaborators that runs: the cluster is a list of live objects,
  a get finds the object of that resource, namespace and name, a create appends, an
  update replaces an object whose resource version it carries.  \<open>missing\<close> is the error
  the store answers for an object that is not there.
\<close>

record cluster =
  objects :: "Unstructured list"
  missing :: error
  cancelled :: "nat list"
  now :: nat
  remote :: "error + Repository"

fun sameObject :: "ResourceInterface \<Rightarrow> string \<Rightarrow> Unstructured \<Rightarrow> bool" where
  "sameObject (RI r ns) nm u =
     (Kind (GetGroupVersionKind u) = r \<and>
      (case ns of Some n \<Rightarrow> GetNamespace u = n | None \<Rightarrow> True) \<and> GetName u = nm)"

definition demoGet ::
  "Context \<Rightarrow> ResourceInterface \<Rightarrow> string \<Rightarrow> cluster \<Rightarrow>
     (Unstructured option \<times> error option) \<times> cluster" where
  "demoGet cx ri nm s =
     (case find (sameObject ri nm) (objects s) of
        Some u \<Rightarrow> ((Some u, None), s)
      | None \<Rightarrow> ((None, Some (missing s)), s))"

definition demoCreate ::
  "Context \<Rightarrow> ResourceInterface \<Rightarrow> Unstructured \<Rightarrow> string \<Rightarrow> cluster \<Rightarrow>
     (Unstructured option \<times> error option) \<times> cluster" where
  "demoCreate cx ri obj fm s =
     (case find (sameObject ri (GetName obj)) (objects s) of
        Some u \<Rightarrow> ((None, Some (StatusError ''AlreadyExists'' 409 ''already exists'')), s)
      | None \<Rightarrow> ((Some obj, None), s\<lparr>objects := objects s @ [obj]\<rparr>))"

definition demoUpdate ::
  "Context \<Rightarrow> ResourceInterface \<Rightarrow> Unstructured \<Rightarrow> string \<Rightarrow> cluster \<Rightarrow>
     (Unstructured option \<times> error option) \<times> cluster" where
  "demoUpdate cx ri obj fm s =
     (case find (sameObject ri (GetName obj)) (objects s) of
        None \<Rightarrow> ((None, Some (missing s)), s)
      | Some u \<Rightarrow>
          if GetResourceVersion obj \<noteq> GetResourceVersion u
          then ((None, Some (StatusError ''Conflict'' 409 ''object has been modified'')), s)
          else ((Some obj, None),
                s\<lparr>objects := map (\<lambda>v. if sameObject ri (GetName obj) v then obj else v)
                                 (objects s)\<rparr>))"

definition gvkConfigMap :: GroupVersionKind where
  "gvkConfigMap = \<lparr>Group = [], Version = ''v1'', Kind = ''ConfigMap''\<rparr>"

definition gvkSecret :: GroupVersionKind where
  "gvkSecret = \<lparr>Group = [], Version = ''v1'', Kind = ''Secret''\<rparr>"

definition docA :: Unstructured where
  "docA = \<lparr>GetGroupVersionKind = gvkConfigMap, GetNamespace = ''prod'', GetName = ''a'',
            GetLabels = Some [''app'' \<mapsto> ''web'', ''team'' \<mapsto> ''x''],
            GetAnnotations = None, GetResourceVersion = [], Object = ''data: 1''\<rparr>"

definition docB :: Unstructured where
  "docB = \<lparr>GetGroupVersionKind = gvkSecret, GetNamespace = ''prod'', GetName = ''b'',
            GetLabels = None, GetAnnotations = None, GetResourceVersion = [],
            Object = ''data: 2''\<rparr>"

definition docC :: Unstructured where
  "docC = \<lparr>GetGroupVersionKind = gvkConfigMap, GetNamespace = ''dev'', GetName = ''c'',
            GetLabels = None, GetAnnotations = None, GetResourceVersion = [],
            Object = ''data: 3''\<rparr>"

definition demoDecode :: "string \<Rightarrow> error + (Unstructured \<times> GroupVersionKind)" where
  "demoDecode d =
     (if d = ''a'' then Inr (docA, gvkConfigMap)
      else if d = ''b'' then Inr (docB, gvkSecret)
      else if d = ''c'' then Inr (docC, gvkConfigMap)
      else Inl (LibError ''cannot decode''))"

definition demoNops :: DotNops where
  "demoNops = \<lparr>Namespace = ''prod'', Labels = Some [''team'' \<mapsto> ''ops'']\<rparr>"

definition demoUnmarshal :: "string \<Rightarrow> error + DotNops" where
  "demoUnmarshal d = (if d = ''nops'' then Inr demoNops else Inl (LibError ''cannot unmarshal''))"

definition demoApi :: "cluster api" where
  "demoApi =
     \<lparr>Decode = demoDecode, Unmarshal = demoUnmarshal, IsNotFound = errors_IsNotFound,
      restMapping = (\<lambda>gvk s. (Inr \<lparr>Resource = Kind gvk, ScopeName = ''namespace''\<rparr>, s)),
      riGet = demoGet, riCreate = demoCreate, riUpdate = demoUpdate,
      RemoveAll = (\<lambda>d s. (None, s)),
      CloneContext = (\<lambda>cx c s. (remote s, s)),
      requestDone = (\<lambda>r s. r \<in> set (cancelled s)),
      clock = now\<rparr>"

definition fileA :: File where
  "fileA = \<lparr>Name = ''a.yaml'', ID = ''1111'', Reader = Inr ''a''\<rparr>"

definition fileB :: File where
  "fileB = \<lparr>Name = ''b.yaml'', ID = ''2222'', Reader = Inr ''b''\<rparr>"

definition fileC :: File where
  "fileC = \<lparr>Name = ''sub/c.yaml'', ID = ''3333'', Reader = Inr ''c''\<rparr>"

definition fileBad :: File where
  "fileBad = \<lparr>Name = ''bad.yaml'', ID = ''4444'', Reader = Inr ''%''\<rparr>"

definition fileNops :: File where
  "fileNops = \<lparr>Name = ''.nops.yaml'', ID = ''9999'', Reader = Inr ''nops''\<rparr>"

definition demoTree :: Tree where
  "demoTree =
     \<lparr>TreeFile = (\<lambda>p. case find (\<lambda>f. Name f = p) [fileNops, fileA, fileB] of
                          Some f \<Rightarrow> Inr f | None \<Rightarrow> Inl (LibError ''file not found'')),
      Files = [fileNops, fileA, fileB], FilesErr = None\<rparr>"

definition demoCommit :: Commit where
  "demoCommit = \<lparr>CommitID = ''c0ffee'', Message = ''first'', CommitTree = Inr demoTree\<rparr>"

definition demoRepository :: Repository where
  "demoRepository = \<lparr>Head = Inr ''c0ffee'', CommitObject = (\<lambda>h. Inr demoCommit)\<rparr>"

definition demoConfig :: OperatorConfig where
  "demoConfig = \<lparr>OnlyManaged = True, AllowCreate = True, CacheFileId = True,
                  Kinds = [''ConfigMap''], Namespaces = [''prod'']\<rparr>"

definition demoOperator :: Operator where
  "demoOperator =
     mainOperator \<lparr>url = ''https://example.org/repo.git'', branch = ''master'',
                    dir = ''/tmp/repo.git'', progress = False\<rparr>
       \<lparr>name = operatorName\<rparr> demoConfig"

text \<open>Live objects named \<^verbatim>\<open>a\<close>: one of another writer, one this operator owns.\<close>

definition liveForeign :: Unstructured where
  "liveForeign = docA\<lparr>GetLabels := Some [''app'' \<mapsto> ''web''], GetResourceVersion := ''41''\<rparr>"

definition liveOwned :: Unstructured where
  "liveOwned = docA\<lparr>GetLabels := Some [managedByLabel \<mapsto> operatorName],
                     GetAnnotations := Some [fileIdAnnotation \<mapsto> ''0000''],
                     GetResourceVersion := ''41''\<rparr>"

definition demoWorld :: "Unstructured list \<Rightarrow> nat list \<Rightarrow> cluster world" where
  "demoWorld objs reqs =
     \<lparr>ext = \<lparr>objects = objs, missing = StatusError ''NotFound'' 404 ''not found'',
              cancelled = reqs, now = 0, remote = Inr demoRepository\<rparr>,
      calls = [], logs = [], sent = []\<rparr>"

text \<open>
  The same empty cluster behind a front that answers a bare 404 for what is not there:
  a status error with no reason.
\<close>

definition plain404 :: error where
  "plain404 = StatusError [] 404 ''404 page not found''"

definition demoWorld404 :: "cluster world" where
  "demoWorld404 = (demoWorld [] []) \<lparr>ext := (ext (demoWorld [] [])) \<lparr>missing := plain404\<rparr>\<rparr>"

section \<open>What the client calls leave behind\<close>

lemma get_obs:
  "calls (snd (get api c ctx gvk ns nm w)) = calls w @ [GetCall gvk ns nm]"
  "logs (snd (get api c ctx gvk ns nm w)) = logs w"
  "sent (snd (get api c ctx gvk ns nm w)) = sent w"
  by (simp_all add: get_def Let_def split: prod.splits sum.splits)

lemma create_obs:
  "calls (snd (create api c ctx obj w)) = calls w @ [CreateCall obj]"
  "logs (snd (create api c ctx obj w)) = logs w"
  "sent (snd (create api c ctx obj w)) = sent w"
  by (simp_all add: create_def Let_def split: prod.splits sum.splits)

lemma update_obs:
  "calls (snd (update api c ctx obj w)) = calls w @ [UpdateCall obj]"
  "logs (snd (update api c ctx obj w)) = logs w"
  "sent (snd (update api c ctx obj w)) = sent w"
  by (simp_all add: update_def Let_def split: prod.splits sum.splits)

lemma slog_obs:
  "calls (slog l m a w) = calls w"
  "sent (slog l m a w) = sent w"
  "ext (slog l m a w) = ext w"
  "logs (slog l m a w) = logs w @ [(l, m, a)]"
  by (simp_all add: slog_def)

lemma mutations_slog: "mutations (slog l m a w) = mutations w"
  by (simp add: mutations_def slog_obs)

lemma mutations_get: "mutations (snd (get api c ctx gvk ns nm w)) = mutations w"
  by (simp add: mutations_def get_obs)

lemma mutations_create: "mutations (snd (create api c ctx obj w)) = mutations w @ [CreateCall obj]"
  by (simp add: mutations_def create_obs)

lemma mutations_update: "mutations (snd (update api c ctx obj w)) = mutations w @ [UpdateCall obj]"
  by (simp add: mutations_def update_obs)

lemma get_mutations_eq:
  "get api c ctx gvk ns nm w = (r, w1) \<Longrightarrow> mutations w1 = mutations w"
  using mutations_get [of api c ctx gvk ns nm w] by simp

lemma applyFile_eligible:
  assumes "loadUnstructuredFromFile api file = Inr (desired, gvk)"
    and "slices_Contains (kinds o') (Kind gvk)"
    and "GetNamespace desired = Namespace dotNops"
    and "get api (kc o') ctx gvk (Namespace dotNops) (GetName desired) w = ((actual, err), w1)"
  shows "applyFile api o' ctx dotNops commitId file w =
     (if err \<noteq> None \<and> (\<not> IsNotFound api (the err) \<or> \<not> allowCreate o') then (err, w1)
      else case ignoreActual o' file actual w1 of
             Some w2 \<Rightarrow> (None, w2)
           | None \<Rightarrow>
               (case actual of
                  Some a \<Rightarrow>
                    (let r = update api (kc o') ctx
                               (SetResourceVersion (GetResourceVersion a)
                                  (stampAnnotations commitId file (stampLabels dotNops desired))) w1
                     in (snd (fst r), snd r))
                | None \<Rightarrow>
                    (let r = create api (kc o') ctx
                               (stampAnnotations commitId file (stampLabels dotNops desired)) w1
                     in (snd (fst r), snd r))))"
  using assms by (simp add: applyFile_def Let_def split_beta split: option.splits)

lemma applyFile_mutations:
  "\<exists>ms. mutations (snd (applyFile api o' ctx dotNops commitId file w)) = mutations w @ ms \<and>
     (ms = [] \<or>
      (\<exists>desired gvk. loadUnstructuredFromFile api file = Inr (desired, gvk) \<and>
         (ms = [CreateCall (stampAnnotations commitId file (stampLabels dotNops desired))] \<or>
          (\<exists>v. ms = [UpdateCall (SetResourceVersion v
                        (stampAnnotations commitId file (stampLabels dotNops desired)))]))))"
proof (cases "loadUnstructuredFromFile api file")
  case (Inl err)
  then show ?thesis by (simp add: applyFile_def)
next
  case (Inr p)
  obtain desired gvk where p: "p = (desired, gvk)" by (cases p)
  obtain actual err w1 where g:
    "get api (kc o') ctx gvk (Namespace dotNops) (GetName desired) w = ((actual, err), w1)"
    by (metis surj_pair)
  have m1: "mutations w1 = mutations w"
    using mutations_get [of api "kc o'" ctx gvk "Namespace dotNops" "GetName desired" w] g by simp
  show ?thesis
    using Inr p g m1
    by (auto simp: applyFile_def Let_def split_beta mutations_slog ignoreActual_def
          mutations_create mutations_update
          split: option.splits if_splits)
qed

section \<open>The walk over the files of a commit\<close>

lemma deployFile_no_error: "fst (deployFile api ctx dotNops commitId f st) = None"
  by (cases st) (simp add: deployFile_def Let_def split: prod.splits option.splits)

lemma ForEach_deployFile:
  "ForEach fs iterErr (deployFile api ctx dotNops commitId) st =
     (iterErr, foldl (\<lambda>st f. snd (deployFile api ctx dotNops commitId f st)) st fs)"
proof (induction fs arbitrary: st)
  case Nil
  show ?case by simp
next
  case (Cons f fs)
  obtain r st' where step: "deployFile api ctx dotNops commitId f st = (r, st')"
    by (cases "deployFile api ctx dotNops commitId f st")
  with deployFile_no_error [of api ctx dotNops commitId f st] have "r = None" by simp
  with step Cons.IH [of st'] show ?case by simp
qed

lemma deployFile_cacheIds_None:
  "cacheIds (fst st) = None \<Longrightarrow> cacheIds (fst (snd (deployFile api ctx dotNops commitId f st))) = None"
  by (cases st) (simp add: deployFile_def Let_def split: prod.splits option.splits)

lemma foldl_deployFile_cacheIds_None:
  "cacheIds (fst st) = None \<Longrightarrow>
   cacheIds (fst (foldl (\<lambda>st f. snd (deployFile api ctx dotNops commitId f st)) st fs)) = None"
  by (induction fs arbitrary: st) (simp_all add: deployFile_cacheIds_None)

lemma deployCommit_cacheIds_None:
  "cacheIds o' = None \<Longrightarrow> cacheIds (fst (snd (deployCommit api o' ctx commit w))) = None"
  using foldl_deployFile_cacheIds_None [of "(o', w)"]
  by (simp add: deployCommit_def ForEach_deployFile Let_def split_beta split: sum.splits option.splits)







section \<open>A pass sends nothing on a result channel\<close>

lemma applyFile_sent: "sent (snd (applyFile api o' ctx dotNops commitId f w)) = sent w"
proof (cases "loadUnstructuredFromFile api f")
  case (Inl err)
  then show ?thesis by (simp add: applyFile_def)
next
  case (Inr p)
  obtain desired gvk where p: "p = (desired, gvk)" by (cases p)
  obtain actual err w1 where g:
    "get api (kc o') ctx gvk (Namespace dotNops) (GetName desired) w = ((actual, err), w1)"
    by (metis surj_pair)
  have s1: "sent w1 = sent w"
    using get_obs(3) [of api "kc o'" ctx gvk "Namespace dotNops" "GetName desired" w] g by simp
  show ?thesis
    using Inr p g s1
    by (auto simp: applyFile_def Let_def split_beta slog_obs ignoreActual_def
          create_obs update_obs split: option.splits if_splits)
qed

lemma deployFile_sent:
  "sent (snd (snd (deployFile api ctx dotNops commitId f st))) = sent (snd st)"
proof (cases st)
  case (Pair o' w)
  have a: "sent (snd (applyFile api o' ctx dotNops commitId f w0)) = sent w0" for w0
    by (rule applyFile_sent)
  show ?thesis
    using Pair a [of "slog LevelDebug ''apply file'' [(''file'', S (Name f)), (''id'', S (ID f))] w"]
    by (auto simp: deployFile_def Let_def slog_obs split: prod.splits option.splits)
qed

lemma foldl_deployFile_sent:
  "sent (snd (foldl (\<lambda>st f. snd (deployFile api ctx dotNops commitId f st)) st fs)) = sent (snd st)"
  by (induction fs arbitrary: st) (simp_all add: deployFile_sent)

lemma deployCommit_sent: "sent (snd (snd (deployCommit api o' ctx commit w))) = sent w"
  using foldl_deployFile_sent [of api ctx _ "CommitID commit" "(o', w)"]
  by (simp add: deployCommit_def ForEach_deployFile Let_def split_beta
        split: sum.splits option.splits)

lemma clone_sent: "sent (snd (clone api c ctx w)) = sent w"
  by (simp add: clone_def Let_def slog_def split: prod.splits option.splits)

lemma cloneRepoAndDeploy_sent: "sent (snd (snd (cloneRepoAndDeploy api o' ctx w))) = sent w"
proof -
  obtain r w1 where c: "clone api (git o') ctx w = (r, w1)" by (cases "clone api (git o') ctx w")
  have s1: "sent w1 = sent w" using clone_sent [of api "git o'" ctx w] c by simp
  have d: "sent (snd (snd (deployCommit api o' ctx head w2))) = sent w2" for head w2
    by (rule deployCommit_sent)
  show ?thesis
    using c s1
    by (auto simp: cloneRepoAndDeploy_def Let_def slog_obs d split_beta
          split: sum.splits option.splits)
qed

lemma worker_append: "worker api (pre @ jobs) st = worker api jobs (worker api pre st)"
  by (induction pre arbitrary: st) simp_all

text \<open>The definitions an example unfolds.\<close>

lemmas model_defs =
  applyFile_def loadUnstructuredFromFile_def get_def create_def update_def resourceInterface_def
  ignoreActual_def stampLabels_def stampAnnotations_def SetLabels_def SetAnnotations_def
  SetResourceVersion_def slices_Contains_def index_def maps_Copy_def slog_def mutations_def
  managedByLabel_def operatorName_def fileIdAnnotation_def commitIdAnnotation_def
  RESTScopeNameNamespace_def Let_def deployFile_def deployCommit_def loadDotNopsFromTree_def
  HasSuffix_def HasPrefix_def path_Base_def clone_def cloneRepoAndDeploy_def workerJob_def
  WithTimeout_def deployTimeout_def handler_def

lemmas demo_defs =
  demoApi_def demoDecode_def demoUnmarshal_def demoGet_def demoCreate_def demoUpdate_def
  demoOperator_def mainOperator_def demoConfig_def demoNops_def demoWorld_def
  gvkConfigMap_def gvkSecret_def docA_def docB_def docC_def
  fileA_def fileB_def fileC_def fileBad_def fileNops_def liveForeign_def liveOwned_def
  demoTree_def demoCommit_def demoRepository_def errors_IsNotFound_def knownReasons_def
  plain404_def demoWorld404_def

section \<open>Claims about \<^verbatim>\<open>applyFile\<close>\<close>

text \<open>
  C6.  \<^verbatim>\<open>applyFile\<close> checks in order and stops at the first check that fails: a file
  that cannot be read or decoded returns that error; a decoded file whose kind is not in
  the allow-list returns the unsupported-kind error, whatever its namespace; a file of
  a listed kind whose namespace is not the policy's returns the namespace-mismatch
  error.  In all three the world is returned as it was: no call reached the object store.
\<close>

theorem applyFile_check_order:
  "(loadUnstructuredFromFile api file = Inl err \<longrightarrow>
      applyFile api o' ctx dotNops commitId file w = (Some err, w)) \<and>
   (loadUnstructuredFromFile api file = Inr (desired, gvk) \<and>
    \<not> slices_Contains (kinds o') (Kind gvk) \<longrightarrow>
      applyFile api o' ctx dotNops commitId file w =
        (Some (Errorf (''Unsupported kind: '' @ Kind gvk)), w)) \<and>
   (loadUnstructuredFromFile api file = Inr (desired, gvk) \<and>
    slices_Contains (kinds o') (Kind gvk) \<and> GetNamespace desired \<noteq> Namespace dotNops \<longrightarrow>
      applyFile api o' ctx dotNops commitId file w =
        (Some (Errorf (''Namespace mismatched: '' @ GetNamespace desired)), w))"
  by (simp add: applyFile_def)

theorem applyFile_check_order_witness:
  "applyFile demoApi demoOperator Background demoNops ''c0ffee'' fileBad (demoWorld [] []) =
     (Some (LibError ''cannot decode''), demoWorld [] []) \<and>
   applyFile demoApi demoOperator Background (demoNops\<lparr>Namespace := ''dev''\<rparr>) ''c0ffee'' fileB
       (demoWorld [] []) =
     (Some (Errorf (''Unsupported kind: '' @ Kind gvkSecret)), demoWorld [] []) \<and>
   applyFile demoApi demoOperator Background demoNops ''c0ffee'' fileC (demoWorld [] []) =
     (Some (Errorf (''Namespace mismatched: '' @ GetNamespace docC)), demoWorld [] [])"
proof -
  have bad: "loadUnstructuredFromFile demoApi fileBad = Inl (LibError ''cannot decode'')"
    by (simp add: loadUnstructuredFromFile_def fileBad_def demoApi_def demoDecode_def)
  have b: "loadUnstructuredFromFile demoApi fileB = Inr (docB, gvkSecret)"
    by (simp add: loadUnstructuredFromFile_def fileB_def demoApi_def demoDecode_def)
  have kb: "\<not> slices_Contains (kinds demoOperator) (Kind gvkSecret)"
    by (simp add: model_defs demo_defs)
  have c: "loadUnstructuredFromFile demoApi fileC = Inr (docC, gvkConfigMap)"
    by (simp add: loadUnstructuredFromFile_def fileC_def demoApi_def demoDecode_def)
  have kc: "slices_Contains (kinds demoOperator) (Kind gvkConfigMap)"
    by (simp add: model_defs demo_defs)
  have nc: "GetNamespace docC \<noteq> Namespace demoNops"
    by (simp add: demo_defs)
  show ?thesis
    using applyFile_check_order [of demoApi fileBad "LibError ''cannot decode''" demoOperator
            Background demoNops "''c0ffee''" "demoWorld [] []"]
          applyFile_check_order [of demoApi fileB _ demoOperator
            Background "demoNops\<lparr>Namespace := ''dev''\<rparr>" "''c0ffee''" "demoWorld [] []"
            docB gvkSecret]
          applyFile_check_order [of demoApi fileC _ demoOperator
            Background demoNops "''c0ffee''" "demoWorld [] []" docC gvkConfigMap]
          bad b kb c kc nc
    by blast
qed

text \<open>
  C1.  A file that passes the decode, kind and namespace checks, whose live object is
  fetched and carries this file's id in its file-id annotation, is applied with success
  and without a create or update call.  Hence, when that is the state the second of two
  applies of the same file finds, the two applies together made at most one mutation
  call, and the second made none.
\<close>

theorem applyFile_same_file_skipped:
  assumes "loadUnstructuredFromFile api file = Inr (desired, gvk)"
    and "slices_Contains (kinds o') (Kind gvk)"
    and "GetNamespace desired = Namespace dotNops"
    and "get api (kc o') ctx gvk (Namespace dotNops) (GetName desired) w = ((Some actual, None), w1)"
    and "index (GetAnnotations actual) fileIdAnnotation = ID file"
  shows "fst (applyFile api o' ctx dotNops commitId file w) = None \<and>
         mutations (snd (applyFile api o' ctx dotNops commitId file w)) = mutations w \<and>
         (\<forall>w0 ctx0 commitId0.
            w = snd (applyFile api o' ctx0 dotNops commitId0 file w0) \<longrightarrow>
            length (mutations (snd (applyFile api o' ctx dotNops commitId file w)))
              \<le> length (mutations w0) + 1)"
proof -
  have m1: "mutations w1 = mutations w"
    using assms(4) by (rule get_mutations_eq)
  have skip: "\<exists>w2. ignoreActual o' file (Some actual) w1 = Some w2 \<and> mutations w2 = mutations w1"
    using assms(5) by (simp add: ignoreActual_def mutations_slog)
  then obtain w2 where w2: "ignoreActual o' file (Some actual) w1 = Some w2"
    and m2: "mutations w2 = mutations w1" by blast
  have res: "applyFile api o' ctx dotNops commitId file w = (None, w2)"
    using applyFile_eligible [OF assms(1-4), of commitId] w2 by simp
  have once: "length (mutations (snd (applyFile api o' ctx0 dotNops commitId0 file w0)))
                \<le> length (mutations w0) + 1" for w0 ctx0 commitId0
    using applyFile_mutations [of api o' ctx0 dotNops commitId0 "file" w0] by auto
  show ?thesis
    using res m1 m2 once by auto
qed

theorem applyFile_same_file_skipped_witness:
  "fst (applyFile demoApi demoOperator Background demoNops ''c0ffee'' fileA
          (snd (applyFile demoApi demoOperator Background demoNops ''c0ffee'' fileA
                  (demoWorld [liveOwned] [])))) = None \<and>
   mutations (snd (applyFile demoApi demoOperator Background demoNops ''c0ffee'' fileA
          (snd (applyFile demoApi demoOperator Background demoNops ''c0ffee'' fileA
                  (demoWorld [liveOwned] []))))) =
   mutations (snd (applyFile demoApi demoOperator Background demoNops ''c0ffee'' fileA
                  (demoWorld [liveOwned] []))) \<and>
   length (mutations (snd (applyFile demoApi demoOperator Background demoNops ''c0ffee'' fileA
          (snd (applyFile demoApi demoOperator Background demoNops ''c0ffee'' fileA
                  (demoWorld [liveOwned] [])))))) \<le> length (mutations (demoWorld [liveOwned] [])) + 1 \<and>
   length (mutations (snd (applyFile demoApi demoOperator Background demoNops ''c0ffee'' fileA
                  (demoWorld [liveOwned] [])))) = 1"
proof -
  let ?w0 = "demoWorld [liveOwned] []"
  let ?w = "snd (applyFile demoApi demoOperator Background demoNops ''c0ffee'' fileA ?w0)"
  have h1: "loadUnstructuredFromFile demoApi fileA = Inr (docA, gvkConfigMap)"
    by (simp add: loadUnstructuredFromFile_def fileA_def demoApi_def demoDecode_def)
  have h2: "slices_Contains (kinds demoOperator) (Kind gvkConfigMap)"
    by (simp add: model_defs demo_defs)
  have h3: "GetNamespace docA = Namespace demoNops"
    by (simp add: demo_defs)
  have "\<exists>actual w1.
          get demoApi (kc demoOperator) Background gvkConfigMap (Namespace demoNops) (GetName docA) ?w
            = ((Some actual, None), w1) \<and>
          index (GetAnnotations actual) fileIdAnnotation = ID fileA"
    by (simp add: model_defs demo_defs)
  then obtain actual w1 where
    h4: "get demoApi (kc demoOperator) Background gvkConfigMap (Namespace demoNops) (GetName docA) ?w
            = ((Some actual, None), w1)"
    and h5: "index (GetAnnotations actual) fileIdAnnotation = ID fileA" by blast
  have one: "length (mutations ?w) = 1"
    by (simp add: model_defs demo_defs)
  show ?thesis
    using applyFile_same_file_skipped [OF h1 h2 h3 h4 h5, of "''c0ffee''"] one by blast
qed

text \<open>
  C3.  With only-managed mode on, a file that passes the checks and whose fetched live
  object does not carry the label \<^verbatim>\<open>app.kubernetes.io/managed-by: knops\<close> is skipped:
  \<^verbatim>\<open>applyFile\<close> returns no error, writes one debug record and makes no create or update
  call, whatever the file and the live object contain otherwise.
\<close>

theorem applyFile_unmanaged_skipped:
  assumes "loadUnstructuredFromFile api file = Inr (desired, gvk)"
    and "slices_Contains (kinds o') (Kind gvk)"
    and "GetNamespace desired = Namespace dotNops"
    and "get api (kc o') ctx gvk (Namespace dotNops) (GetName desired) w = ((Some actual, None), w1)"
    and "onlyManaged o'"
    and "index (GetLabels actual) managedByLabel \<noteq> operatorName"
  shows "applyFile api o' ctx dotNops commitId file w =
           (None, slog LevelDebug ''ignore unmanaged object'' [(''name'', S (GetName actual))] w1) \<and>
         mutations (snd (applyFile api o' ctx dotNops commitId file w)) = mutations w \<and>
         ext (snd (applyFile api o' ctx dotNops commitId file w)) = ext w1"
proof -
  have "ignoreActual o' file (Some actual) w1 =
          Some (slog LevelDebug ''ignore unmanaged object'' [(''name'', S (GetName actual))] w1)"
    using assms(5,6) by (simp add: ignoreActual_def)
  then have "applyFile api o' ctx dotNops commitId file w =
          (None, slog LevelDebug ''ignore unmanaged object'' [(''name'', S (GetName actual))] w1)"
    using applyFile_eligible [OF assms(1-4), of commitId] by simp
  then show ?thesis
    using get_mutations_eq [OF assms(4)] by (simp add: mutations_slog slog_obs)
qed

theorem applyFile_unmanaged_skipped_witness:
  "applyFile demoApi demoOperator Background demoNops ''c0ffee'' fileA (demoWorld [liveForeign] []) =
     (None, slog LevelDebug ''ignore unmanaged object'' [(''name'', S (GetName liveForeign))]
              ((demoWorld [liveForeign] [])
                 \<lparr>calls := [GetCall gvkConfigMap ''prod'' ''a'']\<rparr>)) \<and>
   mutations (snd (applyFile demoApi demoOperator Background demoNops ''c0ffee'' fileA
                    (demoWorld [liveForeign] []))) = mutations (demoWorld [liveForeign] []) \<and>
   ext (snd (applyFile demoApi demoOperator Background demoNops ''c0ffee'' fileA
                    (demoWorld [liveForeign] []))) =
   ext ((demoWorld [liveForeign] []) \<lparr>calls := [GetCall gvkConfigMap ''prod'' ''a'']\<rparr>)"
proof -
  have h1: "loadUnstructuredFromFile demoApi fileA = Inr (docA, gvkConfigMap)"
    by (simp add: loadUnstructuredFromFile_def fileA_def demoApi_def demoDecode_def)
  have h2: "slices_Contains (kinds demoOperator) (Kind gvkConfigMap)"
    by (simp add: model_defs demo_defs)
  have h3: "GetNamespace docA = Namespace demoNops"
    by (simp add: demo_defs)
  have h4: "get demoApi (kc demoOperator) Background gvkConfigMap (Namespace demoNops) (GetName docA)
              (demoWorld [liveForeign] []) =
            ((Some liveForeign, None),
             (demoWorld [liveForeign] []) \<lparr>calls := [GetCall gvkConfigMap ''prod'' ''a'']\<rparr>)"
    by (simp add: model_defs demo_defs)
  have h5: "onlyManaged demoOperator"
    by (simp add: demo_defs)
  have h6: "index (GetLabels liveForeign) managedByLabel \<noteq> operatorName"
    by (simp add: model_defs demo_defs)
  show ?thesis
    by (rule applyFile_unmanaged_skipped [OF h1 h2 h3 h4 h5 h6])
qed

text \<open>
  C4.  For a file that passes the checks: when the store answers with an error that
  \<^verbatim>\<open>errors.IsNotFound\<close> accepts and creation is allowed, \<^verbatim>\<open>applyFile\<close> makes exactly one
  create call, with the stamped document, and returns what it returns; when the store
  answers with such an error and creation is not allowed, it returns the store's error
  and makes no mutation call; when the live object is there and neither skip applies,
  it makes exactly one update call, with the stamped document carrying the live
  object's resource version.  This holds for every error the library counts as
  not-found; under the library's rule these are the status errors with the NotFound
  reason and those with code 404 and a reason the library does not know.
\<close>

theorem applyFile_create_or_update:
  assumes "loadUnstructuredFromFile api file = Inr (desired, gvk)"
    and "slices_Contains (kinds o') (Kind gvk)"
    and "GetNamespace desired = Namespace dotNops"
    and "get api (kc o') ctx gvk (Namespace dotNops) (GetName desired) w = ((actual, err), w1)"
    and "d = stampAnnotations commitId file (stampLabels dotNops desired)"
  shows
   "(actual = None \<and> err = Some e \<and> IsNotFound api e \<and> allowCreate o' \<longrightarrow>
       applyFile api o' ctx dotNops commitId file w =
         (snd (fst (create api (kc o') ctx d w1)), snd (create api (kc o') ctx d w1)) \<and>
       mutations (snd (applyFile api o' ctx dotNops commitId file w)) =
         mutations w @ [CreateCall d]) \<and>
    (err = Some e \<and> IsNotFound api e \<and> \<not> allowCreate o' \<longrightarrow>
       applyFile api o' ctx dotNops commitId file w = (Some e, w1) \<and>
       mutations (snd (applyFile api o' ctx dotNops commitId file w)) = mutations w) \<and>
    (actual = Some a \<and> err = None \<and>
     \<not> (onlyManaged o' \<and> index (GetLabels a) managedByLabel \<noteq> operatorName) \<and>
     index (GetAnnotations a) fileIdAnnotation \<noteq> ID file \<longrightarrow>
       applyFile api o' ctx dotNops commitId file w =
         (snd (fst (update api (kc o') ctx (SetResourceVersion (GetResourceVersion a) d) w1)),
          snd (update api (kc o') ctx (SetResourceVersion (GetResourceVersion a) d) w1)) \<and>
       mutations (snd (applyFile api o' ctx dotNops commitId file w)) =
         mutations w @ [UpdateCall (SetResourceVersion (GetResourceVersion a) d)] \<and>
       GetResourceVersion (SetResourceVersion (GetResourceVersion a) d) = GetResourceVersion a) \<and>
    (IsNotFound api = errors_IsNotFound \<and> actual = None \<and>
     err = Some (StatusError reason code msg) \<and>
     (reason = ''NotFound'' \<or> (reason \<notin> set knownReasons \<and> code = 404)) \<longrightarrow>
       (allowCreate o' \<longrightarrow>
          mutations (snd (applyFile api o' ctx dotNops commitId file w)) =
            mutations w @ [CreateCall d]) \<and>
       (\<not> allowCreate o' \<longrightarrow>
          applyFile api o' ctx dotNops commitId file w = (Some (StatusError reason code msg), w1)))"
proof -
  note unfolded = applyFile_eligible [OF assms(1-4), of commitId]
  note m1 = get_mutations_eq [OF assms(4)]
  have absent: "applyFile api o' ctx dotNops commitId file w =
         (snd (fst (create api (kc o') ctx d w1)), snd (create api (kc o') ctx d w1)) \<and>
       mutations (snd (applyFile api o' ctx dotNops commitId file w)) = mutations w @ [CreateCall d]"
    if "actual = None" "err = Some e" "IsNotFound api e" "allowCreate o'" for e
    using that unfolded m1 assms(5)
    by (simp add: ignoreActual_def Let_def mutations_create)
  have refused: "applyFile api o' ctx dotNops commitId file w = (Some e, w1) \<and>
       mutations (snd (applyFile api o' ctx dotNops commitId file w)) = mutations w"
    if "err = Some e" "IsNotFound api e" "\<not> allowCreate o'" for e
    using that unfolded m1 by simp
  have present: "applyFile api o' ctx dotNops commitId file w =
         (snd (fst (update api (kc o') ctx (SetResourceVersion (GetResourceVersion a) d) w1)),
          snd (update api (kc o') ctx (SetResourceVersion (GetResourceVersion a) d) w1)) \<and>
       mutations (snd (applyFile api o' ctx dotNops commitId file w)) =
         mutations w @ [UpdateCall (SetResourceVersion (GetResourceVersion a) d)] \<and>
       GetResourceVersion (SetResourceVersion (GetResourceVersion a) d) = GetResourceVersion a"
    if "actual = Some a" "err = None"
       "\<not> (onlyManaged o' \<and> index (GetLabels a) managedByLabel \<noteq> operatorName)"
       "index (GetAnnotations a) fileIdAnnotation \<noteq> ID file"
    using that unfolded m1 assms(5)
    by (auto simp: ignoreActual_def Let_def mutations_update SetResourceVersion_def)
  have library: "(allowCreate o' \<longrightarrow>
          mutations (snd (applyFile api o' ctx dotNops commitId file w)) =
            mutations w @ [CreateCall d]) \<and>
       (\<not> allowCreate o' \<longrightarrow>
          applyFile api o' ctx dotNops commitId file w = (Some (StatusError reason code msg), w1))"
    if "IsNotFound api = errors_IsNotFound" "actual = None"
       "err = Some (StatusError reason code msg)"
       "reason = ''NotFound'' \<or> (reason \<notin> set knownReasons \<and> code = 404)"
  proof -
    have "IsNotFound api (StatusError reason code msg)"
      using that(1,4) by (auto simp: errors_IsNotFound_def)
    with absent [OF that(2,3)] refused [OF that(3)] show ?thesis by blast
  qed
  show ?thesis
    using absent [of e] refused [of e] present library by blast
qed

theorem applyFile_create_or_update_witness:
  "mutations (snd (applyFile demoApi demoOperator Background demoNops ''c0ffee'' fileA
                     (demoWorld [] []))) =
     mutations (demoWorld [] []) @
       [CreateCall (stampAnnotations ''c0ffee'' fileA (stampLabels demoNops docA))] \<and>
   mutations (snd (applyFile demoApi demoOperator Background demoNops ''c0ffee'' fileA
                     demoWorld404)) =
     mutations demoWorld404 @
       [CreateCall (stampAnnotations ''c0ffee'' fileA (stampLabels demoNops docA))] \<and>
   applyFile demoApi (demoOperator\<lparr>allowCreate := False\<rparr>) Background demoNops ''c0ffee'' fileA
       (demoWorld [] []) =
     (Some (StatusError ''NotFound'' 404 ''not found''),
      (demoWorld [] []) \<lparr>calls := [GetCall gvkConfigMap ''prod'' ''a'']\<rparr>) \<and>
   applyFile demoApi (demoOperator\<lparr>allowCreate := False\<rparr>) Background demoNops ''c0ffee'' fileA
       demoWorld404 =
     (Some plain404, demoWorld404 \<lparr>calls := [GetCall gvkConfigMap ''prod'' ''a'']\<rparr>) \<and>
   mutations (snd (applyFile demoApi demoOperator Background demoNops ''c0ffee'' fileA
                     (demoWorld [liveOwned] []))) =
     mutations (demoWorld [liveOwned] []) @
       [UpdateCall (SetResourceVersion (GetResourceVersion liveOwned)
                      (stampAnnotations ''c0ffee'' fileA (stampLabels demoNops docA)))] \<and>
   GetResourceVersion (SetResourceVersion (GetResourceVersion liveOwned)
                      (stampAnnotations ''c0ffee'' fileA (stampLabels demoNops docA))) =
     GetResourceVersion liveOwned \<and>
   GetResourceVersion liveOwned = ''41''"
proof -
  let ?d = "stampAnnotations ''c0ffee'' fileA (stampLabels demoNops docA)"
  let ?nf = "StatusError ''NotFound'' 404 ''not found''"
  let ?off = "demoOperator\<lparr>allowCreate := False\<rparr>"
  let ?seen = "\<lambda>w. w\<lparr>calls := [GetCall gvkConfigMap ''prod'' ''a'']\<rparr>"
  have h1: "loadUnstructuredFromFile demoApi fileA = Inr (docA, gvkConfigMap)"
    by (simp add: loadUnstructuredFromFile_def fileA_def demoApi_def demoDecode_def)
  have h2: "slices_Contains (kinds demoOperator) (Kind gvkConfigMap)"
    by (simp add: model_defs demo_defs)
  have h2': "slices_Contains (kinds ?off) (Kind gvkConfigMap)"
    by (simp add: model_defs demo_defs)
  have h3: "GetNamespace docA = Namespace demoNops"
    by (simp add: demo_defs)
  have absent: "get demoApi (kc demoOperator) Background gvkConfigMap (Namespace demoNops)
                  (GetName docA) (demoWorld [] []) = ((None, Some ?nf), ?seen (demoWorld [] []))"
    by (simp add: model_defs demo_defs)
  have absent': "get demoApi (kc ?off) Background gvkConfigMap (Namespace demoNops)
                  (GetName docA) (demoWorld [] []) = ((None, Some ?nf), ?seen (demoWorld [] []))"
    by (simp add: model_defs demo_defs)
  have bare: "get demoApi (kc demoOperator) Background gvkConfigMap (Namespace demoNops)
                  (GetName docA) demoWorld404 = ((None, Some plain404), ?seen demoWorld404)"
    by (simp add: model_defs demo_defs)
  have bare': "get demoApi (kc ?off) Background gvkConfigMap (Namespace demoNops)
                  (GetName docA) demoWorld404 = ((None, Some plain404), ?seen demoWorld404)"
    by (simp add: model_defs demo_defs)
  have present: "get demoApi (kc demoOperator) Background gvkConfigMap (Namespace demoNops)
                  (GetName docA) (demoWorld [liveOwned] []) =
                ((Some liveOwned, None), ?seen (demoWorld [liveOwned] []))"
    by (simp add: model_defs demo_defs)
  have nf: "IsNotFound demoApi ?nf" "IsNotFound demoApi plain404"
    by (simp_all add: demoApi_def errors_IsNotFound_def knownReasons_def plain404_def)
  have ac: "allowCreate demoOperator" "\<not> allowCreate ?off"
    by (simp_all add: demo_defs)
  have own: "\<not> (onlyManaged demoOperator \<and> index (GetLabels liveOwned) managedByLabel \<noteq> operatorName)"
    by (simp add: model_defs demo_defs)
  have old: "index (GetAnnotations liveOwned) fileIdAnnotation \<noteq> ID fileA"
    by (simp add: model_defs demo_defs)
  have rv: "GetResourceVersion liveOwned = ''41''"
    by (simp add: demo_defs)
  have c1: "mutations (snd (applyFile demoApi demoOperator Background demoNops ''c0ffee'' fileA
                     (demoWorld [] []))) = mutations (demoWorld [] []) @ [CreateCall ?d]"
    using applyFile_create_or_update [where e = ?nf and commitId = "''c0ffee''" and a = liveOwned,
            OF h1 h2 h3 absent refl] nf ac
    by blast
  have rule: "IsNotFound demoApi = errors_IsNotFound"
    by (simp add: demoApi_def)
  have unknown: "plain404 = StatusError [] 404 ''404 page not found''"
                "[] = ''NotFound'' \<or> ([] \<notin> set knownReasons \<and> (404::nat) = 404)"
    by (simp_all add: plain404_def knownReasons_def)
  have c2: "mutations (snd (applyFile demoApi demoOperator Background demoNops ''c0ffee'' fileA
                     demoWorld404)) = mutations demoWorld404 @ [CreateCall ?d]"
    using applyFile_create_or_update [where e = plain404 and commitId = "''c0ffee''" and a = liveOwned
            and reason = "[]" and code = 404 and msg = "''404 page not found''",
            OF h1 h2 h3 bare refl, THEN conjunct2, THEN conjunct2, THEN conjunct2]
          rule unknown ac
    by simp
  have r1: "applyFile demoApi ?off Background demoNops ''c0ffee'' fileA (demoWorld [] []) =
              (Some ?nf, ?seen (demoWorld [] []))"
    using applyFile_create_or_update [where e = ?nf and commitId = "''c0ffee''" and a = liveOwned,
            OF h1 h2' h3 absent' refl] nf ac
    by blast
  have r2: "applyFile demoApi ?off Background demoNops ''c0ffee'' fileA demoWorld404 =
              (Some plain404, ?seen demoWorld404)"
    using applyFile_create_or_update [where e = plain404 and commitId = "''c0ffee''" and a = liveOwned
            and reason = "[]" and code = 404 and msg = "''404 page not found''",
            OF h1 h2' h3 bare' refl, THEN conjunct2, THEN conjunct2, THEN conjunct2]
          rule unknown ac
    by simp
  have u: "mutations (snd (applyFile demoApi demoOperator Background demoNops ''c0ffee'' fileA
                     (demoWorld [liveOwned] []))) =
             mutations (demoWorld [liveOwned] []) @
               [UpdateCall (SetResourceVersion (GetResourceVersion liveOwned) ?d)] \<and>
           GetResourceVersion (SetResourceVersion (GetResourceVersion liveOwned) ?d) =
             GetResourceVersion liveOwned"
    using applyFile_create_or_update [where e = ?nf and commitId = "''c0ffee''" and a = liveOwned,
            OF h1 h2 h3 present refl] own old
    by blast
  show ?thesis
    using c1 c2 r1 r2 u rv by (intro conjI) (simp_all only:)
qed

text \<open>
  C7.  The document \<^verbatim>\<open>applyFile\<close> creates or updates is the decoded one with: its
  labels joined with the policy's, the policy's value on every key both have, and the
  managed-by label set to \<^verbatim>\<open>knops\<close> after that; the commit-id annotation set to the
  commit id and the file-id annotation to the file's id; every other label, every other
  annotation and every other field as decoded.  Every create or update call of
  \<^verbatim>\<open>applyFile\<close> carries this document (an update also the live resource version).
\<close>

theorem applyFile_stamps_desired:
  assumes "d = stampAnnotations commitId file (stampLabels dotNops desired)"
    and "own = (case GetLabels desired of None \<Rightarrow> Map.empty | Some l \<Rightarrow> l)"
    and "policy = (case Labels dotNops of None \<Rightarrow> Map.empty | Some l \<Rightarrow> l)"
    and "ann = (case GetAnnotations desired of None \<Rightarrow> Map.empty | Some a \<Rightarrow> a)"
  shows
   "GetLabels d = Some ((own ++ policy)(managedByLabel \<mapsto> operatorName)) \<and>
    GetAnnotations d = Some (ann(commitIdAnnotation \<mapsto> commitId, fileIdAnnotation \<mapsto> ID file)) \<and>
    (\<forall>k. index (GetLabels d) k =
       (if k = managedByLabel then operatorName
        else if k \<in> dom policy then index (Labels dotNops) k
        else index (GetLabels desired) k)) \<and>
    (\<forall>k. index (GetAnnotations d) k =
       (if k = fileIdAnnotation then ID file
        else if k = commitIdAnnotation then commitId
        else index (GetAnnotations desired) k)) \<and>
    (\<forall>k. k \<noteq> managedByLabel \<longrightarrow> (k \<in> dom (the (GetLabels d))) = (k \<in> dom own \<or> k \<in> dom policy)) \<and>
    (\<forall>k. k \<noteq> fileIdAnnotation \<and> k \<noteq> commitIdAnnotation \<longrightarrow>
          the (GetAnnotations d) k = ann k) \<and>
    d\<lparr>GetLabels := GetLabels desired, GetAnnotations := GetAnnotations desired\<rparr> = desired \<and>
    (\<exists>ms. mutations (snd (applyFile api o' ctx dotNops commitId file w)) = mutations w @ ms \<and>
       (ms = [] \<or>
        (\<exists>desired' gvk. loadUnstructuredFromFile api file = Inr (desired', gvk) \<and>
           (ms = [CreateCall (stampAnnotations commitId file (stampLabels dotNops desired'))] \<or>
            (\<exists>v. ms = [UpdateCall (SetResourceVersion v
                          (stampAnnotations commitId file (stampLabels dotNops desired')))])))))"
proof -
  have labels: "GetLabels d = Some ((own ++ policy)(managedByLabel \<mapsto> operatorName))"
    using assms
    by (simp add: stampAnnotations_def stampLabels_def SetLabels_def SetAnnotations_def
          maps_Copy_def Let_def split: option.splits)
  have anns: "GetAnnotations d =
                Some (ann(commitIdAnnotation \<mapsto> commitId, fileIdAnnotation \<mapsto> ID file))"
    using assms
    by (simp add: stampAnnotations_def stampLabels_def SetLabels_def SetAnnotations_def Let_def)
  have lk: "index (GetLabels d) k =
       (if k = managedByLabel then operatorName
        else if k \<in> dom policy then index (Labels dotNops) k
        else index (GetLabels desired) k)" for k
    using assms(2,3) unfolding labels
    by (auto simp: index_def map_add_def dom_def split: option.splits)
  have ak: "index (GetAnnotations d) k =
       (if k = fileIdAnnotation then ID file
        else if k = commitIdAnnotation then commitId
        else index (GetAnnotations desired) k)" for k
    using assms(4) unfolding anns
    by (auto simp: index_def split: option.splits)
  have dk: "k \<noteq> managedByLabel \<Longrightarrow>
              (k \<in> dom (the (GetLabels d))) = (k \<in> dom own \<or> k \<in> dom policy)" for k
    unfolding labels by auto
  have ok: "k \<noteq> fileIdAnnotation \<and> k \<noteq> commitIdAnnotation \<Longrightarrow>
              the (GetAnnotations d) k = ann k" for k
    unfolding anns by simp
  have rest: "d\<lparr>GetLabels := GetLabels desired, GetAnnotations := GetAnnotations desired\<rparr> = desired"
    using assms(1)
    by (simp add: stampAnnotations_def stampLabels_def SetLabels_def SetAnnotations_def Let_def)
  show ?thesis
    using labels anns lk ak dk ok rest
      applyFile_mutations [of api o' ctx dotNops commitId "file" w]
    by blast
qed

theorem applyFile_stamps_desired_witness:
  "index (GetLabels (stampAnnotations ''c0ffee'' fileA (stampLabels demoNops docA))) ''team'' = ''ops'' \<and>
   index (GetLabels (stampAnnotations ''c0ffee'' fileA (stampLabels demoNops docA))) ''app'' = ''web'' \<and>
   index (GetLabels (stampAnnotations ''c0ffee'' fileA (stampLabels demoNops docA))) managedByLabel = ''knops'' \<and>
   index (GetAnnotations (stampAnnotations ''c0ffee'' fileA (stampLabels demoNops docA))) commitIdAnnotation = ''c0ffee'' \<and>
   index (GetAnnotations (stampAnnotations ''c0ffee'' fileA (stampLabels demoNops docA))) fileIdAnnotation = ''1111'' \<and>
   (stampAnnotations ''c0ffee'' fileA (stampLabels demoNops docA))
      \<lparr>GetLabels := GetLabels docA, GetAnnotations := GetAnnotations docA\<rparr> = docA"
proof -
  let ?d = "stampAnnotations ''c0ffee'' fileA (stampLabels demoNops docA)"
  note t = applyFile_stamps_desired [OF refl refl refl refl,
      of "''c0ffee''" fileA demoNops docA demoApi demoOperator Background "demoWorld [] []"]
  have team: "''team'' \<noteq> managedByLabel"
             "''team'' \<in> dom (case Labels demoNops of None \<Rightarrow> Map.empty | Some l \<Rightarrow> l)"
             "index (Labels demoNops) ''team'' = ''ops''"
    by (simp_all add: model_defs demo_defs)
  have app: "''app'' \<noteq> managedByLabel"
            "''app'' \<notin> dom (case Labels demoNops of None \<Rightarrow> Map.empty | Some l \<Rightarrow> l)"
            "index (GetLabels docA) ''app'' = ''web''"
    by (simp_all add: model_defs demo_defs)
  have ids: "commitIdAnnotation \<noteq> fileIdAnnotation" "operatorName = ''knops''" "ID fileA = ''1111''"
    by (simp_all add: model_defs demo_defs)
  from t have l: "\<And>k. index (GetLabels ?d) k =
       (if k = managedByLabel then operatorName
        else if k \<in> dom (case Labels demoNops of None \<Rightarrow> Map.empty | Some l \<Rightarrow> l)
             then index (Labels demoNops) k
        else index (GetLabels docA) k)"
    and a: "\<And>k. index (GetAnnotations ?d) k =
       (if k = fileIdAnnotation then ID fileA
        else if k = commitIdAnnotation then ''c0ffee''
        else index (GetAnnotations docA) k)"
    and r: "?d\<lparr>GetLabels := GetLabels docA, GetAnnotations := GetAnnotations docA\<rparr> = docA"
    by blast+
  show ?thesis
    using l [of "''team''"] l [of "''app''"] l [of managedByLabel]
          a [of commitIdAnnotation] a [of fileIdAnnotation] r team app ids
    by simp
qed

section \<open>Claims about \<^verbatim>\<open>deployCommit\<close>\<close>

text \<open>
  C5.  \<^verbatim>\<open>deployCommit\<close> returns an error only when reading the tree fails (getting the
  commit's tree, or walking its files), when the policy file cannot be loaded or
  decoded, or when the namespace allow-list is not empty and lacks the policy's
  namespace.  An error of \<^verbatim>\<open>applyFile\<close> on a file is written as a warning, the callback
  returns no error, the walk goes on with the next file, and the pass returns success.
\<close>

theorem deployCommit_errors:
  "(fst (deployCommit api o' ctx commit w) = Some e \<longrightarrow>
      CommitTree commit = Inl e \<or>
      (\<exists>tree. CommitTree commit = Inr tree \<and>
         ((\<exists>e0. loadDotNopsFromTree api tree = Inl e0 \<and>
                 e = Errorf (''Load .nops.yaml: '' @ Error e0)) \<or>
          (\<exists>dn. loadDotNopsFromTree api tree = Inr dn \<and> namespaces o' \<noteq> [] \<and>
                 \<not> slices_Contains (namespaces o') (Namespace dn) \<and>
                 e = Errorf (''Restricted namespace: '' @ Namespace dn)) \<or>
          FilesErr tree = Some e))) \<and>
   (HasSuffix (Name f) ''.yaml'' \<and> \<not> HasPrefix (path_Base (Name f)) ''.'' \<and>
    \<not> (cacheIds o' \<noteq> None \<and> index (cacheIds o') (Name f) = ID f) \<and>
    applyFile api o' ctx dotNops commitId f
      (slog LevelDebug ''apply file'' [(''file'', S (Name f)), (''id'', S (ID f))] w) = (Some err, w1) \<longrightarrow>
      deployFile api ctx dotNops commitId f (o', w) =
        (None, (o', slog LevelWarn ''apply file'' [(''file'', S (Name f)), (''err'', E err)] w1))) \<and>
   ForEach (f # fs) iterErr (deployFile api ctx dotNops commitId) st =
     ForEach fs iterErr (deployFile api ctx dotNops commitId)
       (snd (deployFile api ctx dotNops commitId f st)) \<and>
   (CommitTree commit = Inr tree \<and> loadDotNopsFromTree api tree = Inr dotNops \<and>
    (namespaces o' = [] \<or> slices_Contains (namespaces o') (Namespace dotNops)) \<and>
    FilesErr tree = None \<longrightarrow>
      deployCommit api o' ctx commit w =
        (None, foldl (\<lambda>st f. snd (deployFile api ctx dotNops (CommitID commit) f st))
                 (o', w) (Files tree)))"
proof -
  have causes: "CommitTree commit = Inl e \<or>
      (\<exists>tree. CommitTree commit = Inr tree \<and>
         ((\<exists>e0. loadDotNopsFromTree api tree = Inl e0 \<and>
                 e = Errorf (''Load .nops.yaml: '' @ Error e0)) \<or>
          (\<exists>dn. loadDotNopsFromTree api tree = Inr dn \<and> namespaces o' \<noteq> [] \<and>
                 \<not> slices_Contains (namespaces o') (Namespace dn) \<and>
                 e = Errorf (''Restricted namespace: '' @ Namespace dn)) \<or>
          FilesErr tree = Some e))"
    if "fst (deployCommit api o' ctx commit w) = Some e"
    using that
    by (auto simp: deployCommit_def ForEach_deployFile Let_def split_beta
          split: sum.splits if_splits option.splits)
  have logged: "deployFile api ctx dotNops commitId f (o', w) =
        (None, (o', slog LevelWarn ''apply file'' [(''file'', S (Name f)), (''err'', E err)] w1))"
    if "HasSuffix (Name f) ''.yaml''" "\<not> HasPrefix (path_Base (Name f)) ''.''"
       "\<not> (cacheIds o' \<noteq> None \<and> index (cacheIds o') (Name f) = ID f)"
       "applyFile api o' ctx dotNops commitId f
          (slog LevelDebug ''apply file'' [(''file'', S (Name f)), (''id'', S (ID f))] w) = (Some err, w1)"
    using that by (auto simp: deployFile_def Let_def)
  have continues: "ForEach (f # fs) iterErr (deployFile api ctx dotNops commitId) st =
     ForEach fs iterErr (deployFile api ctx dotNops commitId)
       (snd (deployFile api ctx dotNops commitId f st))"
    by (simp add: ForEach_deployFile)
  have success: "deployCommit api o' ctx commit w =
        (None, foldl (\<lambda>st f. snd (deployFile api ctx dotNops (CommitID commit) f st))
                 (o', w) (Files tree))"
    if "CommitTree commit = Inr tree" "loadDotNopsFromTree api tree = Inr dotNops"
       "namespaces o' = [] \<or> slices_Contains (namespaces o') (Namespace dotNops)"
       "FilesErr tree = None"
    using that
    by (auto simp: deployCommit_def ForEach_deployFile Let_def split_beta)
  show ?thesis
    using causes logged continues success by blast
qed

theorem deployCommit_errors_witness:
  "fst (deployCommit demoApi (demoOperator\<lparr>namespaces := [''staging'']\<rparr>) Background demoCommit
          (demoWorld [] [])) = Some (Errorf ''Restricted namespace: prod'') \<and>
   (CommitTree demoCommit = Inl (Errorf ''Restricted namespace: prod'') \<or>
    (\<exists>tree. CommitTree demoCommit = Inr tree \<and>
       ((\<exists>e0. loadDotNopsFromTree demoApi tree = Inl e0 \<and>
               Errorf ''Restricted namespace: prod'' = Errorf (''Load .nops.yaml: '' @ Error e0)) \<or>
        (\<exists>dn. loadDotNopsFromTree demoApi tree = Inr dn \<and>
               namespaces (demoOperator\<lparr>namespaces := [''staging'']\<rparr>) \<noteq> [] \<and>
               \<not> slices_Contains (namespaces (demoOperator\<lparr>namespaces := [''staging'']\<rparr>))
                    (Namespace dn) \<and>
               Errorf ''Restricted namespace: prod'' =
                 Errorf (''Restricted namespace: '' @ Namespace dn)) \<or>
        FilesErr tree = Some (Errorf ''Restricted namespace: prod'')))) \<and>
   deployFile demoApi Background demoNops ''c0ffee'' fileB (demoOperator, demoWorld [] []) =
     (None, (demoOperator,
             slog LevelWarn ''apply file''
               [(''file'', S (Name fileB)), (''err'', E (Errorf ''Unsupported kind: Secret''))]
               (slog LevelDebug ''apply file'' [(''file'', S (Name fileB)), (''id'', S (ID fileB))]
                  (demoWorld [] [])))) \<and>
   deployCommit demoApi demoOperator Background demoCommit (demoWorld [] []) =
     (None, foldl (\<lambda>st f. snd (deployFile demoApi Background demoNops (CommitID demoCommit) f st))
              (demoOperator, demoWorld [] []) (Files demoTree))"
proof -
  let ?w0 = "slog LevelDebug ''apply file'' [(''file'', S (Name fileB)), (''id'', S (ID fileB))]
               (demoWorld [] [])"
  have tree: "CommitTree demoCommit = Inr demoTree"
    by (simp add: demoCommit_def)
  have nops: "loadDotNopsFromTree demoApi demoTree = Inr demoNops"
    by (simp add: loadDotNopsFromTree_def demoTree_def fileNops_def demoApi_def demoUnmarshal_def)
  have allowed: "namespaces demoOperator = [] \<or>
                 slices_Contains (namespaces demoOperator) (Namespace demoNops)"
    by (simp add: model_defs demo_defs)
  have eof: "FilesErr demoTree = None"
    by (simp add: demoTree_def)
  have restricted:
    "fst (deployCommit demoApi (demoOperator\<lparr>namespaces := [''staging'']\<rparr>) Background demoCommit
            (demoWorld [] [])) = Some (Errorf ''Restricted namespace: prod'')"
    by (simp add: deployCommit_def tree nops) (simp add: model_defs demo_defs)
  have sel: "HasSuffix (Name fileB) ''.yaml''" "\<not> HasPrefix (path_Base (Name fileB)) ''.''"
    by (simp_all add: HasSuffix_def HasPrefix_def path_Base_def fileB_def)
  have miss: "\<not> (cacheIds demoOperator \<noteq> None \<and>
                  index (cacheIds demoOperator) (Name fileB) = ID fileB)"
    by (simp add: model_defs demo_defs)
  have failed: "applyFile demoApi demoOperator Background demoNops ''c0ffee'' fileB ?w0 =
                  (Some (Errorf ''Unsupported kind: Secret''), ?w0)"
    by (simp add: model_defs demo_defs)
  note cause = deployCommit_errors [where api = demoApi
            and o' = "demoOperator\<lparr>namespaces := [''staging'']\<rparr>" and ctx = Background
            and commit = demoCommit and w = "demoWorld [] []"
            and e = "Errorf ''Restricted namespace: prod''", THEN conjunct1, rule_format, OF restricted]
  have first: "deployFile demoApi Background demoNops ''c0ffee'' fileB (demoOperator, demoWorld [] []) =
     (None, (demoOperator,
             slog LevelWarn ''apply file''
               [(''file'', S (Name fileB)), (''err'', E (Errorf ''Unsupported kind: Secret''))] ?w0))"
    using deployCommit_errors [where api = demoApi and o' = demoOperator and ctx = Background
            and dotNops = demoNops and commitId = "''c0ffee''" and f = fileB
            and w = "demoWorld [] []" and err = "Errorf ''Unsupported kind: Secret''"
            and ?w1.0 = ?w0]
          sel miss failed
    by blast
  have second: "deployCommit demoApi demoOperator Background demoCommit (demoWorld [] []) =
     (None, foldl (\<lambda>st f. snd (deployFile demoApi Background demoNops (CommitID demoCommit) f st))
              (demoOperator, demoWorld [] []) (Files demoTree))"
    using deployCommit_errors [where api = demoApi and o' = demoOperator and ctx = Background
            and dotNops = demoNops and commit = demoCommit and tree = demoTree
            and w = "demoWorld [] []"]
          tree nops allowed eof
    by blast
  show ?thesis
    using restricted cause first second by blast
qed



section \<open>Claims about the worker\<close>

text \<open>
  C10.  A job submitted by the asynchronous branch of the handler has the background
  context and no result channel.  The background context is never done, so the worker
  does not take its \<^verbatim>\<open>continue\<close> branch on such a job: wherever the job stands in the
  queue, the worker runs \<^verbatim>\<open>cloneRepoAndDeploy\<close> for it, writes an error record when the
  pass fails, and sends nothing on any channel.
\<close>

theorem async_job_always_runs:
  "(handler confKey key sync r ch sel w = (Some job, w') \<and> sync \<noteq> ''1'' \<longrightarrow>
      job = \<lparr>job_ctx = Background, job_res = None\<rparr> \<and> w' = w) \<and>
   \<not> Done api (job_ctx \<lparr>job_ctx = Background, job_res = None\<rparr>) s \<and>
   workerJob api \<lparr>job_ctx = Background, job_res = None\<rparr> (operator, w) =
     (case cloneRepoAndDeploy api operator (WithTimeout api Background deployTimeout (ext w)) w of
        (err, operator1, w1) \<Rightarrow>
          (operator1,
           if err \<noteq> None then slog LevelError ''deploy'' [(''err'', E (the err))] w1 else w1)) \<and>
   sent (snd (workerJob api \<lparr>job_ctx = Background, job_res = None\<rparr> (operator, w))) = sent w \<and>
   worker api (pre @ \<lparr>job_ctx = Background, job_res = None\<rparr> # post) st =
     worker api post (workerJob api \<lparr>job_ctx = Background, job_res = None\<rparr> (worker api pre st))"
proof -
  have submitted: "job = \<lparr>job_ctx = Background, job_res = None\<rparr> \<and> w' = w"
    if "handler confKey key sync r ch sel w = (Some job, w')" "sync \<noteq> ''1''"
    using that by (auto simp: handler_def split: if_splits selected.splits)
  have never: "\<not> Done api (job_ctx \<lparr>job_ctx = Background, job_res = None\<rparr>) s"
    by simp
  have runs: "workerJob api \<lparr>job_ctx = Background, job_res = None\<rparr> (operator, w) =
     (case cloneRepoAndDeploy api operator (WithTimeout api Background deployTimeout (ext w)) w of
        (err, operator1, w1) \<Rightarrow>
          (operator1,
           if err \<noteq> None then slog LevelError ''deploy'' [(''err'', E (the err))] w1 else w1))"
    by (simp add: workerJob_def Let_def split: prod.splits)
  have undelivered:
    "sent (snd (workerJob api \<lparr>job_ctx = Background, job_res = None\<rparr> (operator, w))) = sent w"
    using cloneRepoAndDeploy_sent
            [of api operator "WithTimeout api Background deployTimeout (ext w)" w]
    by (auto simp: runs slog_obs split: prod.splits)
  have reached: "worker api (pre @ \<lparr>job_ctx = Background, job_res = None\<rparr> # post) st =
     worker api post (workerJob api \<lparr>job_ctx = Background, job_res = None\<rparr> (worker api pre st))"
    by (simp add: worker_append)
  show ?thesis
    using submitted never runs undelivered reached by blast
qed

theorem async_job_always_runs_witness:
  "handler ''secret'' ''secret'' ''0'' 1 7 SendJob (demoWorld [] [1]) =
     (Some \<lparr>job_ctx = Background, job_res = None\<rparr>, demoWorld [] [1]) \<and>
   \<not> Done demoApi (job_ctx \<lparr>job_ctx = Background, job_res = None\<rparr>) (ext (demoWorld [] [1])) \<and>
   sent (snd (workerJob demoApi \<lparr>job_ctx = Background, job_res = None\<rparr>
                (demoOperator, demoWorld [] [1]))) = sent (demoWorld [] [1]) \<and>
   length (logs (snd (workerJob demoApi \<lparr>job_ctx = Background, job_res = None\<rparr>
                (demoOperator, demoWorld [] [1])))) = 6"
proof -
  let ?job = "\<lparr>job_ctx = Background, job_res = None\<rparr>"
  have "\<exists>job w'. handler ''secret'' ''secret'' ''0'' 1 7 SendJob (demoWorld [] [1]) = (Some job, w')"
    by (simp add: handler_def)
  then obtain job w' where
    h: "handler ''secret'' ''secret'' ''0'' 1 7 SendJob (demoWorld [] [1]) = (Some job, w')"
    by blast
  have a: "''0'' \<noteq> ''1''" by simp
  note t = async_job_always_runs [where api = demoApi and operator = demoOperator
      and w = "demoWorld [] [1]" and s = "ext (demoWorld [] [1])" and confKey = "''secret''"
      and key = "''secret''" and sync = "''0''" and r = 1 and ch = 7 and sel = SendJob
      and job = job and w' = w']
  have j: "job = ?job \<and> w' = demoWorld [] [1]"
    using t h a by blast
  have ran: "length (logs (snd (workerJob demoApi ?job (demoOperator, demoWorld [] [1])))) = 6"
    by (simp add: model_defs demo_defs)
  show ?thesis
    using t h j ran by blast
qed

text \<open>
  C2 fails as stated: a synchronous job is enqueued with the request's context, and the
  worker drops a job whose context is done when it is received.  Here request 1 is
  cancelled after its job was enqueued: the worker leaves operator and world as they
  were, so no pass ran and nothing was sent on channel 7, while the same job with the
  request alive is run and answered.  The working context derived from the request's is
  done as soon as the request is cancelled, long before the three minutes.
\<close>

theorem enqueued_job_cancelled_counterexample:
  "handler ''secret'' ''secret'' ''1'' 1 7 SendJob (demoWorld [] []) =
     (Some \<lparr>job_ctx = Request 1, job_res = Some 7\<rparr>, demoWorld [] []) \<and>
   workerJob demoApi \<lparr>job_ctx = Request 1, job_res = Some 7\<rparr> (demoOperator, demoWorld [] [1]) =
     (demoOperator, demoWorld [] [1]) \<and>
   sent (snd (workerJob demoApi \<lparr>job_ctx = Request 1, job_res = Some 7\<rparr>
                (demoOperator, demoWorld [] [1]))) = [] \<and>
   logs (snd (workerJob demoApi \<lparr>job_ctx = Request 1, job_res = Some 7\<rparr>
                (demoOperator, demoWorld [] [1]))) = [] \<and>
   sent (snd (workerJob demoApi \<lparr>job_ctx = Request 1, job_res = Some 7\<rparr>
                (demoOperator, demoWorld [] []))) = [(7, None)] \<and>
   Done demoApi (WithTimeout demoApi (Request 1) deployTimeout (ext (demoWorld [] [])))
     (ext (demoWorld [] [1])) \<and>
   clock demoApi (ext (demoWorld [] [1])) < clock demoApi (ext (demoWorld [] [])) + deployTimeout"
  by (simp add: model_defs demo_defs)

text \<open>
  C2, amended.  The worker decides on a job's context when it receives the job.  When
  the context is already done the job is dropped: nothing runs, nothing is written and
  nothing is sent.  Otherwise one pass runs, an error of the pass is written, and the
  result is sent on the job's channel if it has one.  The pass runs under the job's
  context with a deadline of three minutes: that context is done as soon as the job's
  context is done or the deadline has passed, whichever comes first.
\<close>

theorem workerJob_cancellation:
  "(Done api (job_ctx job) (ext w) \<longrightarrow> workerJob api job (operator, w) = (operator, w)) \<and>
   (\<not> Done api (job_ctx job) (ext w) \<longrightarrow>
      (\<exists>err operator1 w1.
         cloneRepoAndDeploy api operator (WithTimeout api (job_ctx job) deployTimeout (ext w)) w =
           (err, operator1, w1) \<and>
         fst (workerJob api job (operator, w)) = operator1 \<and>
         logs (snd (workerJob api job (operator, w))) =
           (if err \<noteq> None then logs w1 @ [(LevelError, ''deploy'', [(''err'', E (the err))])]
            else logs w1) \<and>
         sent (snd (workerJob api job (operator, w))) =
           (case job_res job of Some ch \<Rightarrow> sent w @ [(ch, err)] | None \<Rightarrow> sent w))) \<and>
   Done api (WithTimeout api (job_ctx job) deployTimeout s0) s =
     (Done api (job_ctx job) s \<or> clock api s0 + deployTimeout \<le> clock api s)"
proof -
  have discarded: "workerJob api job (operator, w) = (operator, w)"
    if "Done api (job_ctx job) (ext w)"
    using that by (simp add: workerJob_def)
  have runs: "\<exists>err operator1 w1.
         cloneRepoAndDeploy api operator (WithTimeout api (job_ctx job) deployTimeout (ext w)) w =
           (err, operator1, w1) \<and>
         fst (workerJob api job (operator, w)) = operator1 \<and>
         logs (snd (workerJob api job (operator, w))) =
           (if err \<noteq> None then logs w1 @ [(LevelError, ''deploy'', [(''err'', E (the err))])]
            else logs w1) \<and>
         sent (snd (workerJob api job (operator, w))) =
           (case job_res job of Some ch \<Rightarrow> sent w @ [(ch, err)] | None \<Rightarrow> sent w)"
    if "\<not> Done api (job_ctx job) (ext w)"
  proof -
    let ?c = "WithTimeout api (job_ctx job) deployTimeout (ext w)"
    obtain err operator1 w1 where p: "cloneRepoAndDeploy api operator ?c w = (err, operator1, w1)"
      by (metis surj_pair)
    have s1: "sent w1 = sent w"
      using cloneRepoAndDeploy_sent [of api operator ?c w] p by simp
    show ?thesis
      using that p s1
      by (auto simp: workerJob_def Let_def slog_def split: option.splits)
  qed
  have ceiling: "Done api (WithTimeout api (job_ctx job) deployTimeout s0) s =
     (Done api (job_ctx job) s \<or> clock api s0 + deployTimeout \<le> clock api s)"
    by (simp add: WithTimeout_def)
  show ?thesis
    using discarded runs ceiling by blast
qed

theorem workerJob_cancellation_witness:
  "workerJob demoApi \<lparr>job_ctx = Request 1, job_res = Some 7\<rparr> (demoOperator, demoWorld [] [1]) =
     (demoOperator, demoWorld [] [1]) \<and>
   sent (snd (workerJob demoApi \<lparr>job_ctx = Request 2, job_res = Some 7\<rparr>
                (demoOperator, demoWorld [] [1]))) = sent (demoWorld [] [1]) @ [(7, None)] \<and>
   Done demoApi (WithTimeout demoApi (job_ctx \<lparr>job_ctx = Request 1, job_res = Some 7\<rparr>)
                   deployTimeout (ext (demoWorld [] [])))
     (ext (demoWorld [] [1]))"
proof -
  let ?j1 = "\<lparr>job_ctx = Request 1, job_res = Some 7\<rparr>"
  let ?j2 = "\<lparr>job_ctx = Request 2, job_res = Some 7\<rparr>"
  let ?w = "demoWorld [] [1]"
  have gone: "Done demoApi (job_ctx ?j1) (ext ?w)"
    by (simp add: demoApi_def demoWorld_def)
  have there: "\<not> Done demoApi (job_ctx ?j2) (ext ?w)"
    by (simp add: demoApi_def demoWorld_def)
  have ok: "fst (cloneRepoAndDeploy demoApi demoOperator
                   (WithTimeout demoApi (job_ctx ?j2) deployTimeout (ext ?w)) ?w) = None"
    by (simp add: model_defs demo_defs)
  note t1 = workerJob_cancellation [where api = demoApi and job = ?j1 and w = ?w
      and operator = demoOperator and ?s0.0 = "ext (demoWorld [] [])" and s = "ext ?w"]
  note t2 = workerJob_cancellation [where api = demoApi and job = ?j2 and w = ?w
      and operator = demoOperator]
  have a: "workerJob demoApi ?j1 (demoOperator, ?w) = (demoOperator, ?w)"
    using t1 gone by blast
  have b: "sent (snd (workerJob demoApi ?j2 (demoOperator, ?w))) = sent ?w @ [(7, None)]"
    using t2 [THEN conjunct2, THEN conjunct1] there ok by auto
  have c: "Done demoApi (WithTimeout demoApi (job_ctx ?j1) deployTimeout (ext (demoWorld [] [])))
             (ext ?w)"
    using t1 [THEN conjunct2, THEN conjunct2] gone by blast
  show ?thesis
    using a b c by (intro conjI)
qed

end
